theory Spec2Isabelle
  imports Complex_Main
begin

section \<open>Python values and exceptions\<close>

text \<open>
  The parsers handle records of type \<open>Dict[str, Any]\<close>. The values that occur in
  them are modelled by \<open>pyval\<close>. A float is modelled by the real number it denotes
  (the validation rules only compare floats, they never compute with them); NaN and the
  infinities are outside the model. A string is the list of its characters, which are
  the characters with code points below 256.
\<close>

datatype pyval =
    PNone
  | PBool bool
  | PInt int
  | PFloat real
  | PDecimal real
  | PStr string
  | PList "pyval list"
  | PDict "(string \<times> pyval) list"

type_synonym pydict = "string \<rightharpoonup> pyval"

text \<open>
  The exception classes of \<open>parsers/exceptions.py\<close> and the built-in ones the
  modelled code can meet. Every constructor is a subclass of Python's \<open>Exception\<close>,
  which is what the handlers \<open>except Exception\<close> of the repository catch. The argument
  is the message.

  Modelled from the spec: \<open>AuthenticationError\<close> is imported by
  \<open>civicsource_dekalb.py\<close> from \<open>parsers/exceptions.py\<close>, which does not declare
  it; the spec lists it as the authentication error of the taxonomy, raised on
  login, refresh and verification failures.
\<close>

datatype exn =
    ValidationError string
  | DatabaseError string
  | ConfigurationError string
  | DataFormatError string
  | AuthenticationError string
  | TypeError string
  | ValueError string
  | KeyError string
  | AttributeError string
  | OverflowError string
  | IndexError string
  | RequestException string

text \<open>\<open>str(e)\<close>: the message; for a \<open>KeyError\<close> the repr of the key.\<close>

fun str_exn :: "exn \<Rightarrow> string" where
  "str_exn (ValidationError m) = m"
| "str_exn (DatabaseError m) = m"
| "str_exn (ConfigurationError m) = m"
| "str_exn (DataFormatError m) = m"
| "str_exn (AuthenticationError m) = m"
| "str_exn (TypeError m) = m"
| "str_exn (ValueError m) = m"
| "str_exn (KeyError k) = CHR 0x27 # k @ [CHR 0x27]"
| "str_exn (AttributeError m) = m"
| "str_exn (OverflowError m) = m"
| "str_exn (IndexError m) = m"
| "str_exn (RequestException m) = m"

text \<open>Sequencing of computations that may raise: the first exception wins.\<close>

definition bindE :: "exn + 'a \<Rightarrow> ('a \<Rightarrow> exn + 'b) \<Rightarrow> exn + 'b" where
  "bindE m f = (case m of Inl e \<Rightarrow> Inl e | Inr x \<Rightarrow> f x)"

text \<open>\<open>bool(v)\<close>, the truth value Python gives a value in a condition.\<close>

fun truthy :: "pyval \<Rightarrow> bool" where
  "truthy PNone = False"
| "truthy (PBool b) = b"
| "truthy (PInt i) = (i \<noteq> 0)"
| "truthy (PFloat r) = (r \<noteq> 0)"
| "truthy (PDecimal r) = (r \<noteq> 0)"
| "truthy (PStr s) = (s \<noteq> [])"
| "truthy (PList xs) = (xs \<noteq> [])"
| "truthy (PDict kvs) = (kvs \<noteq> [])"

text \<open>\<open>data[k]\<close> raises \<open>KeyError\<close> on a missing key; \<open>data.get(k)\<close> gives \<open>None\<close>.\<close>

definition getitem :: "pydict \<Rightarrow> string \<Rightarrow> exn + pyval" where
  "getitem d k = (case d k of None \<Rightarrow> Inl (KeyError k) | Some v \<Rightarrow> Inr v)"

definition dict_get :: "pydict \<Rightarrow> string \<Rightarrow> pyval" where
  "dict_get d k = (case d k of None \<Rightarrow> PNone | Some v \<Rightarrow> v)"

text \<open>
  The number a value stands for in a comparison with a number: \<open>bool\<close> is a subclass
  of \<open>int\<close>; a comparison of a number with any other value raises \<open>TypeError\<close>.
\<close>

fun py_num :: "pyval \<Rightarrow> real option" where
  "py_num (PBool b) = Some (if b then 1 else 0)"
| "py_num (PInt i) = Some (real_of_int i)"
| "py_num (PFloat r) = Some r"
| "py_num (PDecimal r) = Some r"
| "py_num _ = None"

section \<open>Validation rules (parsers/utils/validation.py)\<close>

text \<open>
  \<open>validate_numeric_range(value, min_val, max_val)\<close> is
  \<open>min_val <= value <= max_val\<close>.
\<close>

definition validate_numeric_range :: "pyval \<Rightarrow> real \<Rightarrow> real \<Rightarrow> exn + bool" where
  "validate_numeric_range v min_val max_val =
     (case py_num v of
        None \<Rightarrow> Inl (TypeError ''<= not supported between these instances'')
      | Some x \<Rightarrow> Inr (min_val \<le> x \<and> x \<le> max_val))"

text \<open>
  \<open>validate_required_fields(data, required_fields)\<close> is
  \<open>all(data.get(field) for field in required_fields)\<close>.
\<close>

definition validate_required_fields :: "pydict \<Rightarrow> string list \<Rightarrow> bool" where
  "validate_required_fields data required_fields =
     list_all (\<lambda>field. truthy (dict_get data field)) required_fields"

text \<open>
  \<open>validate_tax_amount(value)\<close> is
  \<open>isinstance(value, (float, Decimal)) and 0 < value < MAX_TAX_AMOUNT\<close>.
\<close>

definition MAX_TAX_AMOUNT :: real where
  "MAX_TAX_AMOUNT = 10000000"

fun is_float_or_Decimal :: "pyval \<Rightarrow> bool" where
  "is_float_or_Decimal (PFloat r) = True"
| "is_float_or_Decimal (PDecimal r) = True"
| "is_float_or_Decimal _ = False"

definition validate_tax_amount :: "pyval \<Rightarrow> bool" where
  "validate_tax_amount v =
     (is_float_or_Decimal v \<and>
      (case py_num v of None \<Rightarrow> False | Some x \<Rightarrow> 0 < x \<and> x < MAX_TAX_AMOUNT))"


section \<open>Regular expressions (the part of Python's re the validators use)\<close>

text \<open>
  A pattern is modelled by its syntax tree: \<open>Cls cs\<close> is a character class (one
  character out of \<open>cs\<close>), \<open>Bol\<close> is \<open>^\<close>, \<open>Eol\<close> is \<open>$\<close>, \<open>Eps\<close> the empty
  pattern, then concatenation, alternation and \<open>*\<close>. \<open>ends r s i\<close> lists the
  positions where a match of \<open>r\<close> that starts at position \<open>i\<close> of \<open>s\<close> can end.
  Without the MULTILINE flag \<open>^\<close> matches at position 0 only and \<open>$\<close> matches at the
  end of the string and just before a newline that ends the string.
\<close>

datatype regex =
    Cls "char list"
  | Bol
  | Eol
  | Eps
  | Seq regex regex
  | Alt regex regex
  | Star regex

definition at_eol :: "string \<Rightarrow> nat \<Rightarrow> bool" where
  "at_eol s i = (i = length s \<or> (Suc i = length s \<and> s ! i = CHR 0x0A))"

function ends :: "regex \<Rightarrow> string \<Rightarrow> nat \<Rightarrow> nat list" where
  "ends (Cls cs) s i = (if i < length s \<and> s ! i \<in> set cs then [Suc i] else [])"
| "ends Bol s i = (if i = 0 then [i] else [])"
| "ends Eol s i = (if at_eol s i then [i] else [])"
| "ends Eps s i = [i]"
| "ends (Seq a b) s i = concat (map (ends b s) (ends a s i))"
| "ends (Alt a b) s i = ends a s i @ ends b s i"
| "ends (Star a) s i =
     i # concat (map (\<lambda>j. if i < j \<and> j \<le> length s then ends (Star a) s j else [])
                     (ends a s i))"
  by pat_completeness auto
termination
  by (relation "measures [\<lambda>(r, s, i). size r, \<lambda>(r, s, i). length s - i]") auto

declare ends.simps(7) [simp del]

text \<open>
  \<open>re.match(pattern, string)\<close> looks for a match that starts at the beginning of the
  string and may end anywhere; \<open>re.fullmatch\<close> wants the match to end at the end of
  the string.
\<close>

definition re_match :: "regex \<Rightarrow> string \<Rightarrow> bool" where
  "re_match r s = (ends r s 0 \<noteq> [])"

definition re_fullmatch :: "regex \<Rightarrow> string \<Rightarrow> bool" where
  "re_fullmatch r s = (length s \<in> set (ends r s 0))"

text \<open>
  The declarative reading of a pattern, independent of the matcher:
  \<open>matches r s i j\<close> holds when \<open>r\<close> matches \<open>s\<close> from position \<open>i\<close> to position \<open>j\<close>.
\<close>

inductive matches :: "regex \<Rightarrow> string \<Rightarrow> nat \<Rightarrow> nat \<Rightarrow> bool" where
  m_Cls: "i < length s \<Longrightarrow> s ! i \<in> set cs \<Longrightarrow> matches (Cls cs) s i (Suc i)"
| m_Bol: "matches Bol s 0 0"
| m_Eol: "at_eol s i \<Longrightarrow> matches Eol s i i"
| m_Eps: "matches Eps s i i"
| m_Seq: "matches a s i k \<Longrightarrow> matches b s k j \<Longrightarrow> matches (Seq a b) s i j"
| m_AltL: "matches a s i j \<Longrightarrow> matches (Alt a b) s i j"
| m_AltR: "matches b s i j \<Longrightarrow> matches (Alt a b) s i j"
| m_Star0: "matches (Star a) s i i"
| m_StarS: "matches a s i k \<Longrightarrow> matches (Star a) s k j \<Longrightarrow> matches (Star a) s i j"

text \<open>The pieces the repository's patterns are made of: \<open>r{n}\<close>, \<open>\d\<close>, \<open>[A-Z]\<close>, a literal.\<close>

fun rep :: "nat \<Rightarrow> regex \<Rightarrow> regex" where
  "rep 0 r = Eps"
| "rep (Suc n) r = Seq r (rep n r)"

definition digit :: regex where
  "digit = Cls ''0123456789''"

definition upper :: regex where
  "upper = Cls ''ABCDEFGHIJKLMNOPQRSTUVWXYZ''"

definition lit :: "char \<Rightarrow> regex" where
  "lit c = Cls [c]"

text \<open>
  \<open>bool(re.match(pattern, value))\<close> on a Python value: \<open>re.match\<close> raises
  \<open>TypeError\<close> when the value is not a string.
\<close>

definition re_match_val :: "regex \<Rightarrow> pyval \<Rightarrow> exn + bool" where
  "re_match_val r v =
     (case v of
        PStr s \<Rightarrow> Inr (re_match r s)
      | _ \<Rightarrow> Inl (TypeError ''expected string or bytes-like object''))"

text \<open>\<open>validate_string_format(value, pattern)\<close> is \<open>bool(re.match(pattern, value))\<close>.\<close>

definition validate_string_format :: "pyval \<Rightarrow> regex \<Rightarrow> exn + bool" where
  "validate_string_format v pattern = re_match_val pattern v"

text \<open>\<open>validate_dekalb_id\<close> matches \<open>^\d{6}-\d{2}$\<close>.\<close>

definition dekalb_id_pattern :: regex where
  "dekalb_id_pattern = Seq Bol (Seq (rep 6 digit) (Seq (lit CHR ''-'') (Seq (rep 2 digit) Eol)))"

definition validate_dekalb_id :: "pyval \<Rightarrow> exn + bool" where
  "validate_dekalb_id v = re_match_val dekalb_id_pattern v"

section \<open>Library functions whose behaviour the repository does not fix\<close>

text \<open>
  Conversions of Python's standard library whose results the repository relies on
  without defining them are a parameter of the model: \<open>float(s)\<close> and \<open>int(s)\<close> on a
  string (\<open>None\<close> stands for \<open>ValueError\<close>), \<open>str(v)\<close> on a value that is not a
  string, whether \<open>datetime.strptime(s, fmt)\<close> accepts \<open>s\<close>, and the double nearest
  to a number within the range of the doubles.
\<close>

record pylib =
  float_of_str :: "string \<Rightarrow> real option"
  int_of_str :: "string \<Rightarrow> int option"
  str_of :: "pyval \<Rightarrow> string"
  strptime_ok :: "string \<Rightarrow> string \<Rightarrow> bool"
  nearest_double :: "real \<Rightarrow> real"

text \<open>
  \<open>float(x)\<close>. A number whose magnitude reaches \<open>2^1024 - 2^970\<close> has no nearest
  double: the conversion raises \<open>OverflowError\<close>. Every int up to \<open>2^53\<close> in
  magnitude is a double; a larger int and a Decimal are rounded to the nearest double.
\<close>

definition DOUBLE_OVERFLOW :: real where
  "DOUBLE_OVERFLOW = 2 ^ 1024 - 2 ^ 970"

definition to_double :: "pylib \<Rightarrow> real \<Rightarrow> exn + real" where
  "to_double L x =
     (if DOUBLE_OVERFLOW \<le> \<bar>x\<bar> then Inl (OverflowError ''too large to convert to float'')
      else Inr (nearest_double L x))"

fun py_float :: "pylib \<Rightarrow> pyval \<Rightarrow> exn + real" where
  "py_float L (PBool b) = Inr (if b then 1 else 0)"
| "py_float L (PInt i) =
     (if \<bar>i\<bar> \<le> 2 ^ 53 then Inr (real_of_int i) else to_double L (real_of_int i))"
| "py_float L (PFloat r) = Inr r"
| "py_float L (PDecimal r) = to_double L r"
| "py_float L (PStr s) =
     (case float_of_str L s of
        None \<Rightarrow> Inl (ValueError ''could not convert string to float'')
      | Some r \<Rightarrow> Inr r)"
| "py_float L _ = Inl (TypeError ''float() argument must be a string or a real number'')"

text \<open>\<open>int(x)\<close> truncates a float towards zero.\<close>

definition trunc :: "real \<Rightarrow> int" where
  "trunc r = (if 0 \<le> r then \<lfloor>r\<rfloor> else \<lceil>r\<rceil>)"

fun py_int :: "pylib \<Rightarrow> pyval \<Rightarrow> exn + int" where
  "py_int L (PBool b) = Inr (if b then 1 else 0)"
| "py_int L (PInt i) = Inr i"
| "py_int L (PFloat r) = Inr (trunc r)"
| "py_int L (PDecimal r) = Inr (trunc r)"
| "py_int L (PStr s) =
     (case int_of_str L s of
        None \<Rightarrow> Inl (ValueError ''invalid literal for int() with base 10'')
      | Some i \<Rightarrow> Inr i)"
| "py_int L _ = Inl (TypeError ''int() argument must be a string or a real number'')"

definition py_str :: "pylib \<Rightarrow> pyval \<Rightarrow> string" where
  "py_str L v = (case v of PStr s \<Rightarrow> s | _ \<Rightarrow> str_of L v)"

text \<open>
  \<open>validate_date_format(value, format_str = "%Y-%m-%d")\<close> returns whether
  \<open>strptime\<close> accepts the value; only \<open>ValueError\<close> is handled, so the \<open>TypeError\<close> of
  a value that is not a string propagates.
\<close>

definition validate_date_format :: "pylib \<Rightarrow> pyval \<Rightarrow> exn + bool" where
  "validate_date_format L v =
     (case v of
        PStr s \<Rightarrow> Inr (strptime_ok L s ''%Y-%m-%d'')
      | _ \<Rightarrow> Inl (TypeError ''strptime() argument 1 must be str''))"

text \<open>
  \<open>s.strip()\<close> removes leading and trailing whitespace: the characters for which
  \<open>str.isspace\<close> holds, which below code point 256 are the ones listed, the next-line
  character U+0085 and the no-break space U+00A0 included.
\<close>

definition is_space :: "char \<Rightarrow> bool" where
  "is_space c = (c \<in> set [CHR 0x09, CHR 0x0A, CHR 0x0B, CHR 0x0C, CHR 0x0D,
                           CHR 0x1C, CHR 0x1D, CHR 0x1E, CHR 0x1F, CHR 0x20,
                           CHR 0x85, CHR 0xA0])"

definition strip :: "string \<Rightarrow> string" where
  "strip s = rev (dropWhile is_space (rev (dropWhile is_space s)))"


section \<open>The validate methods of the parsers\<close>

text \<open>
  \<open>if not c: raise ValidationError(msg)\<close>, followed by the rest \<open>k\<close> of the method;
  the condition itself may raise.
\<close>

definition require :: "exn + bool \<Rightarrow> string \<Rightarrow> exn + 'a \<Rightarrow> exn + 'a" where
  "require c msg k = bindE c (\<lambda>ok. if ok then k else Inl (ValidationError msg))"

text \<open>
  Every validate method below wraps its body in
  \<open>try: ... except Exception as e: self.log(40, ...); raise ValidationError(str(e))\<close>.
  The log line is not part of the model.
\<close>

definition reraise_ValidationError :: "exn + bool \<Rightarrow> exn + bool" where
  "reraise_ValidationError r =
     (case r of Inl e \<Rightarrow> Inl (ValidationError (str_exn e)) | Inr b \<Rightarrow> Inr b)"

text \<open>\<open>coords.get(k, 0)\<close> on a dictionary value.\<close>

definition assoc_get :: "(string \<times> pyval) list \<Rightarrow> string \<Rightarrow> pyval \<Rightarrow> pyval" where
  "assoc_get kvs k dflt = (case map_of kvs k of None \<Rightarrow> dflt | Some v \<Rightarrow> v)"

text \<open>
  \<open>isinstance(coords, dict) and validate_numeric_range(coords.get('lat', 0), a, b)
  and validate_numeric_range(coords.get('lon', 0), c, d)\<close>, with the short-circuit
  of \<open>and\<close>.
\<close>

definition coords_ok :: "pyval \<Rightarrow> real \<Rightarrow> real \<Rightarrow> real \<Rightarrow> real \<Rightarrow> exn + bool" where
  "coords_ok coords lat_min lat_max lon_min lon_max =
     (case coords of
        PDict kvs \<Rightarrow>
          bindE (validate_numeric_range (assoc_get kvs ''lat'' (PInt 0)) lat_min lat_max)
            (\<lambda>lat_ok. if \<not> lat_ok then Inr False
                      else validate_numeric_range (assoc_get kvs ''lon'' (PInt 0)) lon_min lon_max)
      | _ \<Rightarrow> Inr False)"

subsection \<open>CivicsourceParser.validate (parsers/civicsource.py)\<close>

definition civicsource_REQUIRED_FIELDS :: "string list" where
  "civicsource_REQUIRED_FIELDS =
     [''property_id'', ''address'', ''owner_name'', ''assessed_value'', ''tax_status'',
      ''coordinates'']"

text \<open>The pattern \<open>^[A-Z]{3}-\d{5}$\<close>.\<close>

definition property_id_pattern :: regex where
  "property_id_pattern =
     Seq Bol (Seq (rep 3 upper) (Seq (lit CHR ''-'') (Seq (rep 5 digit) Eol)))"

definition civicsource_validate_body :: "pylib \<Rightarrow> pydict \<Rightarrow> exn + bool" where
  "civicsource_validate_body L data =
     require (Inr (validate_required_fields data civicsource_REQUIRED_FIELDS))
       ''Missing required fields''
    (require (bindE (getitem data ''property_id'')
                (\<lambda>v. validate_string_format v property_id_pattern))
       ''Invalid property ID format''
    (require (bindE (getitem data ''assessed_value'')
                (\<lambda>v. bindE (py_float L v)
                  (\<lambda>x. validate_numeric_range (PFloat x) 0 1000000000)))
       ''Invalid assessed value''
    (bindE (getitem data ''coordinates'')
       (\<lambda>coords. require (coords_ok coords (- 90) 90 (- 180) 180)
          ''Invalid coordinates''
          (Inr True)))))"

definition civicsource_validate :: "pylib \<Rightarrow> pydict \<Rightarrow> exn + bool" where
  "civicsource_validate L data = reraise_ValidationError (civicsource_validate_body L data)"

subsection \<open>DeKalbCivicsourceParser.validate (parsers/civicsource_dekalb.py)\<close>

definition dekalb_REQUIRED_FIELDS :: "string list" where
  "dekalb_REQUIRED_FIELDS =
     [''tax_id'', ''address'', ''owner_name'', ''assessed_value'', ''tax_status'',
      ''coordinates'', ''property_class'', ''total_due'', ''sale_date'']"

text \<open>The pattern \<open>^[A-Z]\d{2}$\<close>.\<close>

definition property_class_pattern :: regex where
  "property_class_pattern = Seq Bol (Seq upper (Seq (rep 2 digit) Eol))"

text \<open>
  The bounds of the coordinates are the float literals \<open>33.5\<close>, \<open>34.0\<close>, \<open>-84.4\<close>
  and \<open>-83.8\<close>. The first two are doubles; the last two stand for the doubles nearest
  to them, which are these numbers.
\<close>

definition DEKALB_LAT_MIN :: real where
  "DEKALB_LAT_MIN = 67 / 2"

definition DEKALB_LAT_MAX :: real where
  "DEKALB_LAT_MAX = 34"

definition DEKALB_LON_MIN :: real where
  "DEKALB_LON_MIN = - (2969561004297421 / 2 ^ 45)"

definition DEKALB_LON_MAX :: real where
  "DEKALB_LON_MAX = - (5896900762088243 / 2 ^ 46)"

definition dekalb_validate_body :: "pylib \<Rightarrow> pydict \<Rightarrow> exn + bool" where
  "dekalb_validate_body L data =
     require (Inr (validate_required_fields data dekalb_REQUIRED_FIELDS))
       ''Missing required fields''
    (require (bindE (getitem data ''tax_id'') validate_dekalb_id)
       ''Invalid DeKalb County tax ID format''
    (require (bindE (getitem data ''assessed_value'')
                (\<lambda>v. bindE (py_float L v)
                  (\<lambda>x. validate_numeric_range (PFloat x) 0 1000000000)))
       ''Invalid assessed value''
    (bindE (getitem data ''coordinates'')
       (\<lambda>coords. require
          (coords_ok coords DEKALB_LAT_MIN DEKALB_LAT_MAX DEKALB_LON_MIN DEKALB_LON_MAX)
          ''Invalid coordinates for DeKalb County''
    (require (bindE (getitem data ''property_class'')
                (\<lambda>v. validate_string_format v property_class_pattern))
       ''Invalid property class format''
    (require (bindE (getitem data ''total_due'') (\<lambda>v. Inr (validate_tax_amount v)))
       ''Invalid total due amount''
    (require (bindE (getitem data ''sale_date'') (validate_date_format L))
       ''Invalid sale date format''
       (Inr True))))))))"

definition dekalb_validate :: "pylib \<Rightarrow> pydict \<Rightarrow> exn + bool" where
  "dekalb_validate L data = reraise_ValidationError (dekalb_validate_body L data)"

subsection \<open>ClaytonBaseParser.validate (parsers/clayton.py)\<close>

definition clayton_REQUIRED_FIELDS :: "string list" where
  "clayton_REQUIRED_FIELDS =
     [''parcel_id'', ''owner_name'', ''property_address'', ''market_value'', ''tax_year'']"

text \<open>The pattern \<open>^\d{2}-\d{3}-\d{3}$\<close>.\<close>

definition parcel_id_pattern :: regex where
  "parcel_id_pattern =
     Seq Bol (Seq (rep 2 digit) (Seq (lit CHR ''-'') (Seq (rep 3 digit)
       (Seq (lit CHR ''-'') (Seq (rep 3 digit) Eol)))))"

definition clayton_validate_body :: "pylib \<Rightarrow> pydict \<Rightarrow> exn + bool" where
  "clayton_validate_body L data =
     require (Inr (validate_required_fields data clayton_REQUIRED_FIELDS))
       ''Missing required fields''
    (require (bindE (getitem data ''parcel_id'')
                (\<lambda>v. validate_string_format v parcel_id_pattern))
       ''Invalid parcel ID format''
    (require (bindE (getitem data ''market_value'')
                (\<lambda>v. bindE (py_float L v)
                  (\<lambda>x. validate_numeric_range (PFloat x) 0 100000000)))
       ''Invalid market value''
    (require (bindE (getitem data ''tax_year'')
                (\<lambda>v. bindE (py_int L v)
                  (\<lambda>y. validate_numeric_range (PInt y) 1900 2100)))
       ''Invalid tax year''
       (Inr True))))"

definition clayton_validate :: "pylib \<Rightarrow> pydict \<Rightarrow> exn + bool" where
  "clayton_validate L data = reraise_ValidationError (clayton_validate_body L data)"


subsection \<open>CobbPDFParser.validate (parsers/cobbpdf.py)\<close>

definition cobb_REQUIRED_FIELDS :: "string list" where
  "cobb_REQUIRED_FIELDS =
     [''property_id'', ''location_address'', ''district'', ''land_lot'', ''tax_amount'',
      ''assessment_date'']"

text \<open>The pattern \<open>^\d{2}-\d{4}-\d{2}-\d{3}$\<close>.\<close>

definition cobb_id_pattern :: regex where
  "cobb_id_pattern =
     Seq Bol (Seq (rep 2 digit) (Seq (lit CHR ''-'') (Seq (rep 4 digit)
       (Seq (lit CHR ''-'') (Seq (rep 2 digit) (Seq (lit CHR ''-'') (Seq (rep 3 digit) Eol)))))))"

text \<open>\<open>isinstance(v, (int, float))\<close>; \<open>bool\<close> is a subclass of \<open>int\<close>.\<close>

fun is_int_or_float :: "pyval \<Rightarrow> bool" where
  "is_int_or_float (PBool b) = True"
| "is_int_or_float (PInt i) = True"
| "is_int_or_float (PFloat r) = True"
| "is_int_or_float _ = False"

text \<open>
  \<open>not isinstance(v, (int, float)) or v < 0\<close>: the comparison is made on numbers only.
\<close>

definition bad_tax_amount :: "pyval \<Rightarrow> bool" where
  "bad_tax_amount v =
     (\<not> is_int_or_float v \<or> (case py_num v of None \<Rightarrow> False | Some x \<Rightarrow> x < 0))"

text \<open>
  The method first walks through the required fields and raises at the first one that
  \<open>data.get\<close> finds missing or falsy, then applies the rules. A \<open>ValidationError\<close> is
  raised again as it is, any other exception as \<open>ValidationError(str(e))\<close>, which for a
  \<open>ValidationError\<close> is the same exception.
\<close>

definition cobb_validate_body :: "pylib \<Rightarrow> pydict \<Rightarrow> exn + bool" where
  "cobb_validate_body L data =
     (case find (\<lambda>field. \<not> truthy (dict_get data field)) cobb_REQUIRED_FIELDS of
        Some field \<Rightarrow> Inl (ValidationError (''Missing required field: '' @ field))
      | None \<Rightarrow>
          require (bindE (getitem data ''property_id'') (re_match_val cobb_id_pattern))
            ''Invalid property ID format''
         (require (bindE (getitem data ''tax_amount'') (\<lambda>v. Inr (\<not> bad_tax_amount v)))
            ''Invalid tax amount''
         (require (bindE (getitem data ''assessment_date'') (validate_date_format L))
            ''Invalid date format''
            (Inr True))))"

definition cobb_validate :: "pylib \<Rightarrow> pydict \<Rightarrow> exn + bool" where
  "cobb_validate L data = reraise_ValidationError (cobb_validate_body L data)"

section \<open>The database connection and the two transaction helpers\<close>

text \<open>
  The connection is the object the helpers call \<open>commit()\<close> and \<open>rollback()\<close> on.
  The model counts both calls and gives them their transactional meaning: rows written
  since the last commit are pending, a commit makes them durable, a rollback drops them.
  The driver behind the connection is external.
\<close>

type_synonym row = "pyval list"

record db_connection =
  pending :: "row list"
  committed :: "row list"
  commits :: nat
  rollbacks :: nat

definition commit :: "db_connection \<Rightarrow> db_connection" where
  "commit c = c\<lparr>committed := committed c @ pending c, pending := [], commits := commits c + 1\<rparr>"

definition rollback :: "db_connection \<Rightarrow> db_connection" where
  "rollback c = c\<lparr>pending := [], rollbacks := rollbacks c + 1\<rparr>"

subsection \<open>transaction_scope (parsers/utils/db.py)\<close>

text \<open>
  \<open>count\<close> is \<open>_transaction_local.count\<close>; \<open>None\<close> means that the attribute does not
  exist yet (no scope was entered in this thread). \<open>commit_error\<close> is what the driver
  does when \<open>connection.commit()\<close> is called: \<open>None\<close> when the call returns, otherwise
  the exception it raises. A call of \<open>connection.rollback()\<close> is taken to return.
\<close>

record scope_state =
  count :: "int option"
  connection :: db_connection
  commit_error :: "exn option"

text \<open>A call of \<open>commit\<close> that raises is a call, and makes nothing durable.\<close>

definition failed_commit :: "db_connection \<Rightarrow> db_connection" where
  "failed_commit c = c\<lparr>commits := commits c + 1\<rparr>"

text \<open>
  What runs inside a \<open>with transaction_scope(connection):\<close> block: nothing, a
  statement that raises, another scope on the same connection, or one block after another.
\<close>

datatype scope_body =
    Pass
  | Raise exn
  | Scope scope_body
  | Then scope_body scope_body

definition the_count :: "scope_state \<Rightarrow> int" where
  "the_count s = (case count s of None \<Rightarrow> 0 | Some n \<Rightarrow> n)"

text \<open>
  Entering: \<open>if not hasattr(_transaction_local, 'count'): count = 0\<close>, then
  \<open>count += 1\<close>.
\<close>

definition scope_enter :: "scope_state \<Rightarrow> scope_state" where
  "scope_enter s = s\<lparr>count := Some (the_count s + 1)\<rparr>"

text \<open>
  The handler \<open>except Exception:\<close> of the scope: \<open>count -= 1\<close>, at count 0 a
  rollback, and the exception is raised again.
\<close>

definition scope_handler :: "exn \<Rightarrow> scope_state \<Rightarrow> exn option \<times> scope_state" where
  "scope_handler e s =
     (let s' = s\<lparr>count := Some (the_count s - 1)\<rparr>
      in (Some e, if the_count s' = 0 then s'\<lparr>connection := rollback (connection s')\<rparr> else s'))"

text \<open>
  Leaving, with the outcome \<open>r\<close> of the block. When the block raised, the handler
  runs. When it returned: \<open>count -= 1\<close>, then at count 0 the commit. The commit is
  inside the \<open>try\<close>, so when it raises the handler runs as well, on a counter that has
  been decremented already.
\<close>

definition scope_exit :: "exn option \<Rightarrow> scope_state \<Rightarrow> exn option \<times> scope_state" where
  "scope_exit r s =
     (case r of
        Some e \<Rightarrow> scope_handler e s
      | None \<Rightarrow>
          (let s' = s\<lparr>count := Some (the_count s - 1)\<rparr>
           in if the_count s' = 0 then
                (case commit_error s' of
                   None \<Rightarrow> (None, s'\<lparr>connection := commit (connection s')\<rparr>)
                 | Some e \<Rightarrow> scope_handler e (s'\<lparr>connection := failed_commit (connection s')\<rparr>))
              else (None, s')))"

fun run :: "scope_body \<Rightarrow> scope_state \<Rightarrow> exn option \<times> scope_state" where
  "run Pass s = (None, s)"
| "run (Raise e) s = (Some e, s)"
| "run (Scope b) s = (case run b (scope_enter s) of (r, s') \<Rightarrow> scope_exit r s')"
| "run (Then a b) s =
     (case run a s of (Some e, s') \<Rightarrow> (Some e, s') | (None, s') \<Rightarrow> run b s')"

definition transaction_scope :: "scope_body \<Rightarrow> scope_state \<Rightarrow> exn option \<times> scope_state" where
  "transaction_scope body s = run (Scope body) s"

text \<open>The exception a block raises, read off the block: its first \<open>raise\<close>.\<close>

fun raised :: "scope_body \<Rightarrow> exn option" where
  "raised Pass = None"
| "raised (Raise e) = Some e"
| "raised (Scope b) = raised b"
| "raised (Then a b) = (case raised a of Some e \<Rightarrow> Some e | None \<Rightarrow> raised b)"

subsection \<open>BaseParser.transaction (parsers/base.py)\<close>

text \<open>
  The body of \<open>with self.transaction():\<close> in the save methods is a sequence of
  statements executed on the connection, any of which may raise.
\<close>

datatype db_op = Execute row | Fail exn

fun run_ops :: "db_op list \<Rightarrow> db_connection \<Rightarrow> exn option \<times> db_connection" where
  "run_ops [] c = (None, c)"
| "run_ops (Execute r # ops) c = run_ops ops (c\<lparr>pending := pending c @ [r]\<rparr>)"
| "run_ops (Fail e # ops) c = (Some e, c)"

definition transaction ::
  "db_connection option \<Rightarrow> db_op list \<Rightarrow> (exn + unit) \<times> db_connection option" where
  "transaction conn body =
     (case conn of
        None \<Rightarrow> (Inl (DatabaseError ''No database connection available''), None)
      | Some c \<Rightarrow>
          (case run_ops body c of
             (None, c') \<Rightarrow> (Inr (), Some (commit c'))
           | (Some e, c') \<Rightarrow>
               (Inl (DatabaseError (''Transaction failed: '' @ str_exn e)), Some (rollback c'))))"



section \<open>Parser objects: parse, the row transformations and clean\<close>

text \<open>
  An instance attribute either holds a value (possibly \<open>None\<close>) or has been removed
  by \<open>del self.x\<close>; reading a removed attribute raises \<open>AttributeError\<close>.
\<close>

datatype 'a attr = Deleted | Attr 'a

definition read_attr :: "string \<Rightarrow> 'a attr \<Rightarrow> exn + 'a" where
  "read_attr name a =
     (case a of
        Deleted \<Rightarrow> Inl (AttributeError (''object has no attribute '' @ name))
      | Attr v \<Rightarrow> Inr v)"

text \<open>
  A table read by pandas is the list of its rows, a row maps a column name to the value
  of the cell. A GIS feature is a row with the centroid of its geometry.
\<close>

type_synonym frame = "pydict list"

record feature =
  attributes :: pydict
  centroid_x :: real
  centroid_y :: real

text \<open>\<open>row.get(k, default)\<close>.\<close>

definition row_get :: "pydict \<Rightarrow> string \<Rightarrow> pyval \<Rightarrow> pyval" where
  "row_get r k dflt = (case r k of None \<Rightarrow> dflt | Some v \<Rightarrow> v)"

text \<open>\<open>frame.iloc[0]\<close> raises \<open>IndexError\<close> on a table without rows.\<close>

definition iloc0 :: "'a list \<Rightarrow> exn + 'a" where
  "iloc0 df =
     (case df of
        [] \<Rightarrow> Inl (IndexError ''single positional indexer is out-of-bounds'')
      | r # _ \<Rightarrow> Inr r)"

text \<open>
  The parsers that keep the table they read in \<open>self.data_frame\<close>
  (CivicsourceParser, ClaytonExcelParser, GovEaseParser) share this attribute;
  CivicsourceParser adds \<open>self.gis_data\<close>.
\<close>

record tabular_parser =
  data_frame :: "frame option attr"

record civicsource_parser = tabular_parser +
  gis_data :: "feature list option attr"

subsection \<open>CivicsourceParser (parsers/civicsource.py)\<close>

definition empty_str :: pyval where
  "empty_str = PStr []"

definition transform_tabular_row :: "pylib \<Rightarrow> pydict \<Rightarrow> exn + pydict" where
  "transform_tabular_row L r =
     bindE (py_float L (row_get r ''assessed_value'' (PInt 0))) (\<lambda>av.
     bindE (py_float L (row_get r ''latitude'' (PInt 0))) (\<lambda>lat.
     bindE (py_float L (row_get r ''longitude'' (PInt 0))) (\<lambda>lon.
       Inr (map_of
         [(''property_id'', PStr (py_str L (row_get r ''property_id'' empty_str))),
          (''address'', PStr (py_str L (row_get r ''address'' empty_str))),
          (''owner_name'', PStr (py_str L (row_get r ''owner_name'' empty_str))),
          (''assessed_value'', PFloat av),
          (''tax_status'', PStr (py_str L (row_get r ''tax_status'' empty_str))),
          (''coordinates'', PDict [(''lat'', PFloat lat), (''lon'', PFloat lon)])]))))"

definition transform_gis_feature :: "pylib \<Rightarrow> feature \<Rightarrow> exn + pydict" where
  "transform_gis_feature L f =
     bindE (py_float L (row_get (attributes f) ''assessed_value'' (PInt 0))) (\<lambda>av.
       Inr (map_of
         [(''property_id'', PStr (py_str L (row_get (attributes f) ''property_id'' empty_str))),
          (''address'', PStr (py_str L (row_get (attributes f) ''address'' empty_str))),
          (''owner_name'', PStr (py_str L (row_get (attributes f) ''owner_name'' empty_str))),
          (''assessed_value'', PFloat av),
          (''tax_status'', PStr (py_str L (row_get (attributes f) ''tax_status'' empty_str))),
          (''coordinates'',
             PDict [(''lat'', PFloat (centroid_y f)), (''lon'', PFloat (centroid_x f))])]))"

text \<open>\<open>_transform_tabular_data\<close>, \<open>_transform_gis_data\<close> and \<open>_transform_data\<close>.\<close>

definition transform_tabular_data ::
  "pylib \<Rightarrow> 'a civicsource_parser_scheme \<Rightarrow> exn + pydict" where
  "transform_tabular_data L p =
     bindE (read_attr ''data_frame'' (data_frame p)) (\<lambda>df.
       case df of
         None \<Rightarrow> Inl (AttributeError ''NoneType object has no attribute iloc'')
       | Some rows \<Rightarrow> bindE (iloc0 rows) (transform_tabular_row L))"

definition transform_gis_data ::
  "pylib \<Rightarrow> 'a civicsource_parser_scheme \<Rightarrow> exn + pydict" where
  "transform_gis_data L p =
     bindE (read_attr ''gis_data'' (gis_data p)) (\<lambda>g.
       case g of
         None \<Rightarrow> Inl (AttributeError ''NoneType object has no attribute iloc'')
       | Some fs \<Rightarrow> bindE (iloc0 fs) (transform_gis_feature L))"

definition transform_data :: "pylib \<Rightarrow> 'a civicsource_parser_scheme \<Rightarrow> exn + pydict" where
  "transform_data L p =
     bindE (read_attr ''data_frame'' (data_frame p)) (\<lambda>df.
       if df \<noteq> None then transform_tabular_data L p
       else bindE (read_attr ''gis_data'' (gis_data p)) (\<lambda>g.
         if g \<noteq> None then transform_gis_data L p
         else Inl (DataFormatError ''No data available for transformation'')))"

text \<open>
  The input of \<open>parse\<close> names one source; what the pandas or geopandas reader returns
  for it (or the exception it raises) is part of the input.
\<close>

datatype source =
    ExcelPath "exn + frame"
  | CsvPath "exn + frame"
  | GisPath "exn + feature list"
  | NoSource

definition load_source ::
  "source \<Rightarrow> 'a civicsource_parser_scheme \<Rightarrow> exn option \<times> 'a civicsource_parser_scheme" where
  "load_source src p =
     (case src of
        ExcelPath (Inl e) \<Rightarrow> (Some e, p)
      | ExcelPath (Inr df) \<Rightarrow> (None, p\<lparr>data_frame := Attr (Some df)\<rparr>)
      | CsvPath (Inl e) \<Rightarrow> (Some e, p)
      | CsvPath (Inr df) \<Rightarrow> (None, p\<lparr>data_frame := Attr (Some df)\<rparr>)
      | GisPath (Inl e) \<Rightarrow> (Some e, p)
      | GisPath (Inr fs) \<Rightarrow> (None, p\<lparr>gis_data := Attr (Some fs)\<rparr>)
      | NoSource \<Rightarrow> (Some (DataFormatError ''No valid input data source provided''), p))"

definition civicsource_parse ::
  "pylib \<Rightarrow> source \<Rightarrow> 'a civicsource_parser_scheme
     \<Rightarrow> (exn + pydict) \<times> 'a civicsource_parser_scheme" where
  "civicsource_parse L src p =
     (case load_source src p of
        (Some e, p') \<Rightarrow>
          (Inl (DataFormatError (''Failed to parse input data: '' @ str_exn e)), p')
      | (None, p') \<Rightarrow>
          (case transform_data L p' of
             Inl e \<Rightarrow> (Inl (DataFormatError (''Failed to parse input data: '' @ str_exn e)), p')
           | Inr d \<Rightarrow> (Inr d, p')))"

text \<open>
  \<open>clean\<close>: \<open>if self.data_frame is not None: del self.data_frame\<close>, then the same for
  \<open>self.gis_data\<close>.
\<close>

definition civicsource_clean ::
  "'a civicsource_parser_scheme \<Rightarrow> exn option \<times> 'a civicsource_parser_scheme" where
  "civicsource_clean p =
     (case data_frame p of
        Deleted \<Rightarrow> (Some (AttributeError ''object has no attribute data_frame''), p)
      | Attr df \<Rightarrow>
          (let p1 = (if df \<noteq> None then p\<lparr>data_frame := Deleted\<rparr> else p)
           in case gis_data p1 of
                Deleted \<Rightarrow> (Some (AttributeError ''object has no attribute gis_data''), p1)
              | Attr g \<Rightarrow> (None, if g \<noteq> None then p1\<lparr>gis_data := Deleted\<rparr> else p1)))"

definition civicsource_init :: civicsource_parser where
  "civicsource_init = \<lparr>data_frame = Attr None, gis_data = Attr None\<rparr>"

subsection \<open>ClaytonExcelParser (parsers/clayton.py)\<close>

definition transform_row :: "pylib \<Rightarrow> pydict \<Rightarrow> exn + pydict" where
  "transform_row L r =
     bindE (getitem r ''parcel_id'') (\<lambda>pid.
     bindE (getitem r ''owner_name'') (\<lambda>owner.
     bindE (getitem r ''property_address'') (\<lambda>addr.
     bindE (bindE (getitem r ''market_value'') (py_float L)) (\<lambda>mv.
     bindE (bindE (getitem r ''tax_year'') (py_int L)) (\<lambda>ty.
       Inr (map_of
         [(''parcel_id'', PStr (strip (py_str L pid))),
          (''owner_name'', PStr (strip (py_str L owner))),
          (''property_address'', PStr (strip (py_str L addr))),
          (''market_value'', PFloat mv),
          (''tax_year'', PInt ty)]))))))"

text \<open>
  \<open>parse\<close>: the argument is what \<open>pd.read_excel\<close> returns for the path, or the
  exception it raises.
\<close>

definition clayton_excel_parse ::
  "pylib \<Rightarrow> exn + frame \<Rightarrow> 'a tabular_parser_scheme
     \<Rightarrow> (exn + pydict) \<times> 'a tabular_parser_scheme" where
  "clayton_excel_parse L excel p =
     (case excel of
        Inl e \<Rightarrow> (Inl (DataFormatError (''Failed to parse Excel: '' @ str_exn e)), p)
      | Inr df \<Rightarrow>
          (let p' = p\<lparr>data_frame := Attr (Some df)\<rparr>;
               r = (if df = [] then Inl (DataFormatError ''Excel file contains no data'')
                    else bindE (iloc0 df) (transform_row L))
           in case r of
                Inl e \<Rightarrow> (Inl (DataFormatError (''Failed to parse Excel: '' @ str_exn e)), p')
              | Inr d \<Rightarrow> (Inr d, p')))"

text \<open>\<open>clean\<close>: \<open>if self.data_frame is not None: del self.data_frame\<close>.\<close>

definition clayton_excel_clean ::
  "'a tabular_parser_scheme \<Rightarrow> exn option \<times> 'a tabular_parser_scheme" where
  "clayton_excel_clean p =
     (case data_frame p of
        Deleted \<Rightarrow> (Some (AttributeError ''object has no attribute data_frame''), p)
      | Attr df \<Rightarrow> (None, if df \<noteq> None then p\<lparr>data_frame := Deleted\<rparr> else p))"

definition tabular_init :: tabular_parser where
  "tabular_init = \<lparr>data_frame = Attr None\<rparr>"

subsection \<open>GovEaseParser.clean (parsers/govease.py)\<close>

text \<open>
  \<open>if self.data_frame is not None: del self.data_frame; self.data_frame = None\<close>.
\<close>

definition govease_clean ::
  "'a tabular_parser_scheme \<Rightarrow> exn option \<times> 'a tabular_parser_scheme" where
  "govease_clean p =
     (case data_frame p of
        Deleted \<Rightarrow> (Some (AttributeError ''object has no attribute data_frame''), p)
      | Attr df \<Rightarrow> (None, if df \<noteq> None then p\<lparr>data_frame := Attr None\<rparr> else p))"

text \<open>Parse, then validate: the record when both succeed.\<close>

definition parse_then_validate ::
  "(pydict \<Rightarrow> exn + bool) \<Rightarrow> exn + pydict \<Rightarrow> exn + pydict" where
  "parse_then_validate validate parsed =
     bindE parsed (\<lambda>d. bindE (validate d) (\<lambda>ok. Inr d))"

section \<open>DeKalbCivicsourceParser: the session (parsers/civicsource_dekalb.py)\<close>

text \<open>
  The remote API is external. A request is a \<open>session.post\<close> to one of three
  endpoints; the server's answer is either a failure, which the requests library raises
  as a \<open>RequestException\<close> (from \<open>post\<close>, \<open>raise_for_status\<close> or \<open>json\<close>), or a JSON
  body, of which the parser reads the entry \<open>token\<close> (\<open>None\<close>: the body has no such
  entry). Times are seconds; \<open>now\<close> is \<open>datetime.now()\<close>.
\<close>

datatype endpoint = Login | Refresh | VerifyEmail

datatype reply = Failure string | Json "string option"

record dekalb_parser = civicsource_parser +
  auth_token :: "string option"
  token_expiry :: "int option"
  authorization :: "string option"
  posts :: "endpoint list"
  session_closes :: nat

definition dekalb_init :: dekalb_parser where
  "dekalb_init =
     \<lparr>data_frame = Attr None, gis_data = Attr None, auth_token = None, token_expiry = None,
      authorization = None, posts = [], session_closes = 0\<rparr>"

text \<open>A token received from the server lives for \<open>timedelta(hours=24)\<close>.\<close>

definition token_lifetime :: int where
  "token_lifetime = 24 * 3600"

definition store_token :: "string \<Rightarrow> int \<Rightarrow> dekalb_parser \<Rightarrow> dekalb_parser" where
  "store_token t now p =
     p\<lparr>auth_token := Some t, token_expiry := Some (now + token_lifetime),
       authorization := Some (''Bearer '' @ t)\<rparr>"

text \<open>
  \<open>authenticate\<close>: one post to the login endpoint; a \<open>RequestException\<close> becomes an
  \<open>AuthenticationError\<close>, a body without \<open>token\<close> raises \<open>KeyError\<close>, which the method
  does not handle.
\<close>

definition authenticate ::
  "(endpoint \<Rightarrow> reply) \<Rightarrow> int \<Rightarrow> dekalb_parser \<Rightarrow> (exn + bool) \<times> dekalb_parser" where
  "authenticate server now p =
     (let p1 = p\<lparr>posts := posts p @ [Login]\<rparr>
      in case server Login of
           Failure m \<Rightarrow> (Inl (AuthenticationError (''Failed to authenticate: '' @ m)), p1)
         | Json None \<Rightarrow> (Inl (KeyError ''token''), p1)
         | Json (Some t) \<Rightarrow> (Inr True, store_token t now p1))"

text \<open>\<open>not self.auth_token\<close>: no token, or the empty string.\<close>

definition no_token :: "string option \<Rightarrow> bool" where
  "no_token t = (case t of None \<Rightarrow> True | Some s \<Rightarrow> s = [])"

text \<open>
  \<open>refresh_session\<close>: without a token or an expiry it authenticates; with an expired
  token it posts to the refresh endpoint and, on a \<open>RequestException\<close>, authenticates;
  otherwise it returns \<open>True\<close> at once.
\<close>

definition refresh_session ::
  "(endpoint \<Rightarrow> reply) \<Rightarrow> int \<Rightarrow> dekalb_parser \<Rightarrow> (exn + bool) \<times> dekalb_parser" where
  "refresh_session server now p =
     (if no_token (auth_token p) \<or> token_expiry p = None then authenticate server now p
      else if the (token_expiry p) \<le> now then
        (let p1 = p\<lparr>posts := posts p @ [Refresh]\<rparr>
         in case server Refresh of
              Failure m \<Rightarrow> authenticate server now p1
            | Json None \<Rightarrow> (Inl (KeyError ''token''), p1)
            | Json (Some t) \<Rightarrow> (Inr True, store_token t now p1))
      else (Inr True, p))"

text \<open>
  \<open>parse\<close> of the DeKalb parser: \<open>refresh_session\<close> first, then the parse of
  CivicsourceParser.
\<close>

definition dekalb_parse ::
  "pylib \<Rightarrow> (endpoint \<Rightarrow> reply) \<Rightarrow> int \<Rightarrow> source \<Rightarrow> dekalb_parser
     \<Rightarrow> (exn + pydict) \<times> dekalb_parser" where
  "dekalb_parse L server now src p =
     (case refresh_session server now p of
        (Inl e, p') \<Rightarrow> (Inl e, p')
      | (Inr ok, p') \<Rightarrow>
          if \<not> ok then (Inl (AuthenticationError ''Failed to establish valid session''), p')
          else civicsource_parse L src p')"

text \<open>\<open>clean\<close>: the clean of CivicsourceParser, then \<open>self.session.close()\<close>.\<close>

definition dekalb_clean :: "dekalb_parser \<Rightarrow> exn option \<times> dekalb_parser" where
  "dekalb_clean p =
     (case civicsource_clean p of
        (Some e, p') \<Rightarrow> (Some e, p')
      | (None, p') \<Rightarrow> (None, p'\<lparr>session_closes := session_closes p' + 1\<rparr>))"

text \<open>The requests a call added to the log of the session.\<close>

definition new_posts :: "dekalb_parser \<Rightarrow> dekalb_parser \<Rightarrow> endpoint list" where
  "new_posts p p' = drop (length (posts p)) (posts p')"

section \<open>Sample inputs\<close>

text \<open>
  A library instance and records on which the theorems below are exercised. The sample
  \<open>strptime\<close> accepts the strings of the shape \<open>dddd-dd-dd\<close>; of the strings the
  sample conversions read \<open>"0"\<close> only; the sample rounding leaves a number as it is.
  The floats of the sample records are doubles.
\<close>

definition sample_date_pattern :: regex where
  "sample_date_pattern =
     Seq (rep 4 digit) (Seq (lit CHR ''-'') (Seq (rep 2 digit) (Seq (lit CHR ''-'') (rep 2 digit))))"

definition sample_lib :: pylib where
  "sample_lib =
     \<lparr>float_of_str = (\<lambda>s. if s = ''0'' then Some 0 else None),
      int_of_str = (\<lambda>s. if s = ''0'' then Some 0 else None),
      str_of = (\<lambda>v. ''?''),
      strptime_ok = (\<lambda>s fmt. re_fullmatch sample_date_pattern s),
      nearest_double = (\<lambda>x. x)\<rparr>"

definition civicsource_sample :: pydict where
  "civicsource_sample = map_of
     [(''property_id'', PStr ''ABC-12345''),
      (''address'', PStr ''123 Main St''),
      (''owner_name'', PStr ''John Doe''),
      (''assessed_value'', PFloat 150000),
      (''tax_status'', PStr ''current''),
      (''coordinates'', PDict [(''lat'', PFloat (163 / 4)), (''lon'', PFloat (- 74))])]"

definition dekalb_sample :: pydict where
  "dekalb_sample = map_of
     [(''tax_id'', PStr ''123456-01''),
      (''address'', PStr ''123 Dekalb Ave''),
      (''owner_name'', PStr ''John Doe''),
      (''assessed_value'', PFloat 250000),
      (''tax_status'', PStr ''current''),
      (''coordinates'', PDict [(''lat'', PFloat (135 / 4)), (''lon'', PFloat (- 337 / 4))]),
      (''property_class'', PStr ''R03''),
      (''total_due'', PFloat (7001 / 2)),
      (''sale_date'', PStr ''2023-06-15'')]"

definition clayton_sample :: pydict where
  "clayton_sample = map_of
     [(''parcel_id'', PStr ''12-345-678''),
      (''owner_name'', PStr ''Jane Smith''),
      (''property_address'', PStr ''456 Oak Avenue''),
      (''market_value'', PFloat 250000),
      (''tax_year'', PInt 2023)]"

definition fresh_scope_state :: scope_state where
  "fresh_scope_state =
     \<lparr>count = None,
      connection = \<lparr>pending = [], committed = [], commits = 0, rollbacks = 0\<rparr>,
      commit_error = None\<rparr>"

text \<open>
  The same state with a driver whose commit raises, and the state that the first scope
  leaves behind there, once the driver works again.
\<close>

definition failing_commit_state :: scope_state where
  "failing_commit_state = fresh_scope_state\<lparr>commit_error := Some (ValueError ''commit failed'')\<rparr>"

definition after_failed_commit :: scope_state where
  "after_failed_commit =
     \<lparr>count = Some (- 1),
      connection = \<lparr>pending = [], committed = [], commits = 1, rollbacks = 0\<rparr>,
      commit_error = None\<rparr>"


text \<open>
  A DeKalb parser that holds a token which expired at time 1000, and a server whose
  refresh endpoint fails while its login endpoint answers with a token.
\<close>

definition expired_parser :: dekalb_parser where
  "expired_parser = dekalb_init\<lparr>auth_token := Some ''expired_token'', token_expiry := Some 1000\<rparr>"

definition refresh_down_server :: "endpoint \<Rightarrow> reply" where
  "refresh_down_server ep =
     (case ep of Refresh \<Rightarrow> Failure ''503 Server Error'' | _ \<Rightarrow> Json (Some ''mock_jwt_token''))"

text \<open>The first row of a Civicsource table and of a Clayton table.\<close>

definition civicsource_row :: pydict where
  "civicsource_row = map_of
     [(''property_id'', PStr ''ABC-12345''),
      (''address'', PStr ''123 Main St''),
      (''owner_name'', PStr ''John Doe''),
      (''assessed_value'', PFloat 150000),
      (''tax_status'', PStr ''current''),
      (''latitude'', PFloat (163 / 4)),
      (''longitude'', PFloat (- 74))]"

definition clayton_row :: pydict where
  "clayton_row = map_of
     [(''parcel_id'', PStr ''12-345-678''),
      (''owner_name'', PStr ''Jane Smith''),
      (''property_address'', PStr ''456 Oak Avenue''),
      (''market_value'', PFloat 250000),
      (''tax_year'', PInt 2023)]"

text \<open>The same Clayton row with a blank in front of the owner's name.\<close>

definition clayton_row_padded :: pydict where
  "clayton_row_padded = clayton_row(''owner_name'' \<mapsto> PStr '' Jane Smith'')"

text \<open>The value of a field of the record a computation returns.\<close>

definition field_of :: "exn + pydict \<Rightarrow> string \<Rightarrow> exn + pyval option" where
  "field_of r k = (case r of Inl e \<Rightarrow> Inl e | Inr d \<Rightarrow> Inr (d k))"

section \<open>Basic facts about the combinators\<close>

lemma bindE_Inr_iff [simp]: "bindE m f = Inr x \<longleftrightarrow> (\<exists>y. m = Inr y \<and> f y = Inr x)"
  by (cases m) (simp_all add: bindE_def)

lemma bindE_Inl [simp]: "bindE (Inl e) f = Inl e"
  by (simp add: bindE_def)

lemma bindE_Inr [simp]: "bindE (Inr y) f = f y"
  by (simp add: bindE_def)

lemma require_Inr_iff [simp]: "require c msg k = Inr x \<longleftrightarrow> c = Inr True \<and> k = Inr x"
  by (cases c) (auto simp add: require_def)

lemma require_False [simp]: "require (Inr False) msg k = Inl (ValidationError msg)"
  by (simp add: require_def)

lemma require_True [simp]: "require (Inr True) msg k = k"
  by (simp add: require_def)

lemma require_Inl [simp]: "require (Inl e) msg k = Inl e"
  by (simp add: require_def)

lemma reraise_Inr_iff [simp]: "reraise_ValidationError r = Inr b \<longleftrightarrow> r = Inr b"
  by (cases r) (simp_all add: reraise_ValidationError_def)

lemma reraise_cases:
  "(\<exists>m. reraise_ValidationError r = Inl (ValidationError m)) \<or>
   (\<exists>b. r = Inr b \<and> reraise_ValidationError r = Inr b)"
  by (cases r) (auto simp add: reraise_ValidationError_def)

lemma rep_numeral [simp]: "rep (numeral k) r = Seq r (rep (pred_numeral k) r)"
  by (simp add: numeral_eq_Suc)

text \<open>The definitions a concrete validation unfolds.\<close>

lemmas validate_defs =
  civicsource_validate_def civicsource_validate_body_def dekalb_validate_def
  dekalb_validate_body_def clayton_validate_def clayton_validate_body_def
  reraise_ValidationError_def getitem_def dict_get_def validate_required_fields_def
  validate_string_format_def re_match_val_def re_match_def re_fullmatch_def
  validate_dekalb_id_def validate_numeric_range_def coords_ok_def assoc_get_def
  validate_tax_amount_def MAX_TAX_AMOUNT_def validate_date_format_def at_eol_def
  digit_def upper_def lit_def property_id_pattern_def dekalb_id_pattern_def
  property_class_pattern_def parcel_id_pattern_def sample_date_pattern_def sample_lib_def
  civicsource_REQUIRED_FIELDS_def dekalb_REQUIRED_FIELDS_def clayton_REQUIRED_FIELDS_def
  DEKALB_LAT_MIN_def DEKALB_LAT_MAX_def DEKALB_LON_MIN_def DEKALB_LON_MAX_def

text \<open>The sample records are valid for their parsers.\<close>

lemma civicsource_sample_valid: "civicsource_validate sample_lib civicsource_sample = Inr True"
  by (simp add: validate_defs civicsource_sample_def)

lemma dekalb_sample_valid: "dekalb_validate sample_lib dekalb_sample = Inr True"
  by (simp add: validate_defs dekalb_sample_def)

lemma clayton_sample_valid: "clayton_validate sample_lib clayton_sample = Inr True"
  by (simp add: validate_defs clayton_sample_def)

section \<open>Required fields\<close>

lemma required_fields_falsy:
  "field \<in> set required_fields \<Longrightarrow> \<not> truthy (dict_get data field)
     \<Longrightarrow> \<not> validate_required_fields data required_fields"
  by (auto simp add: validate_required_fields_def list_all_iff)

lemma civicsource_missing:
  "\<not> validate_required_fields data civicsource_REQUIRED_FIELDS
     \<Longrightarrow> civicsource_validate L data = Inl (ValidationError ''Missing required fields'')"
  by (simp add: civicsource_validate_def civicsource_validate_body_def
        reraise_ValidationError_def)

lemma dekalb_missing:
  "\<not> validate_required_fields data dekalb_REQUIRED_FIELDS
     \<Longrightarrow> dekalb_validate L data = Inl (ValidationError ''Missing required fields'')"
  by (simp add: dekalb_validate_def dekalb_validate_body_def reraise_ValidationError_def)

lemma clayton_missing:
  "\<not> validate_required_fields data clayton_REQUIRED_FIELDS
     \<Longrightarrow> clayton_validate L data = Inl (ValidationError ''Missing required fields'')"
  by (simp add: clayton_validate_def clayton_validate_body_def reraise_ValidationError_def)

lemma cobb_missing:
  assumes "field \<in> set cobb_REQUIRED_FIELDS" and "\<not> truthy (dict_get data field)"
  shows "\<exists>f \<in> set cobb_REQUIRED_FIELDS.
           cobb_validate L data = Inl (ValidationError (''Missing required field: '' @ f))"
proof -
  obtain f where f: "find (\<lambda>field. \<not> truthy (dict_get data field)) cobb_REQUIRED_FIELDS = Some f"
    using assms by (cases "find (\<lambda>field. \<not> truthy (dict_get data field)) cobb_REQUIRED_FIELDS")
                    (auto simp add: find_None_iff)
  then have "f \<in> set cobb_REQUIRED_FIELDS"
    by (auto simp add: find_Some_iff)
  moreover have "cobb_validate L data = Inl (ValidationError (''Missing required field: '' @ f))"
    using f by (simp add: cobb_validate_def cobb_validate_body_def reraise_ValidationError_def)
  ultimately show ?thesis by blast
qed

text \<open>
  Claim C5. A record that lacks a field of the parser's required-field list makes
  validate raise a validation error, never return a value. In the parsers built on
  \<open>validate_required_fields\<close> (Civicsource, DeKalb, Clayton) the exception is
  \<open>ValidationError("Missing required fields")\<close>; in the Cobb parser it is
  \<open>ValidationError("Missing required field: f")\<close> for a required field \<open>f\<close>. The
  outcome is this error whatever the other fields hold, so the required-fields check
  decides before any per-field rule is looked at.
\<close>

theorem missing_required_field_raises:
  "(field \<in> set civicsource_REQUIRED_FIELDS \<and> data field = None \<longrightarrow>
      civicsource_validate L data = Inl (ValidationError ''Missing required fields'')) \<and>
   (field \<in> set dekalb_REQUIRED_FIELDS \<and> data field = None \<longrightarrow>
      dekalb_validate L data = Inl (ValidationError ''Missing required fields'')) \<and>
   (field \<in> set clayton_REQUIRED_FIELDS \<and> data field = None \<longrightarrow>
      clayton_validate L data = Inl (ValidationError ''Missing required fields'')) \<and>
   (field \<in> set cobb_REQUIRED_FIELDS \<and> data field = None \<longrightarrow>
      (\<exists>f \<in> set cobb_REQUIRED_FIELDS.
         cobb_validate L data = Inl (ValidationError (''Missing required field: '' @ f))))"
proof -
  have falsy: "data field = None \<Longrightarrow> \<not> truthy (dict_get data field)"
    by (simp add: dict_get_def)
  show ?thesis
    using falsy required_fields_falsy[of field _ data]
      civicsource_missing[of data L] dekalb_missing[of data L] clayton_missing[of data L]
      cobb_missing[of field data L]
    by blast
qed

theorem missing_required_field_raises_witness:
  "''owner_name'' \<in> set civicsource_REQUIRED_FIELDS \<and>
   ''owner_name'' \<in> set dekalb_REQUIRED_FIELDS \<and>
   ''owner_name'' \<in> set clayton_REQUIRED_FIELDS \<and>
   (civicsource_sample(''owner_name'' := None)) ''owner_name'' = None \<and>
   civicsource_validate sample_lib (civicsource_sample(''owner_name'' := None))
     = Inl (ValidationError ''Missing required fields'') \<and>
   dekalb_validate sample_lib (civicsource_sample(''owner_name'' := None))
     = Inl (ValidationError ''Missing required fields'') \<and>
   clayton_validate sample_lib (civicsource_sample(''owner_name'' := None))
     = Inl (ValidationError ''Missing required fields'') \<and>
   ''district'' \<in> set cobb_REQUIRED_FIELDS \<and>
   civicsource_sample ''district'' = None \<and>
   (\<exists>f \<in> set cobb_REQUIRED_FIELDS.
      cobb_validate sample_lib civicsource_sample
        = Inl (ValidationError (''Missing required field: '' @ f)))"
proof -
  note A = missing_required_field_raises
          [of "''owner_name''" "civicsource_sample(''owner_name'' := None)" sample_lib]
  note B = missing_required_field_raises
          [of "''district''" civicsource_sample sample_lib]
  have a: "''owner_name'' \<in> set civicsource_REQUIRED_FIELDS \<and>
           ''owner_name'' \<in> set dekalb_REQUIRED_FIELDS \<and>
           ''owner_name'' \<in> set clayton_REQUIRED_FIELDS \<and>
           (civicsource_sample(''owner_name'' := None)) ''owner_name'' = None"
    by (simp add: civicsource_REQUIRED_FIELDS_def dekalb_REQUIRED_FIELDS_def
          clayton_REQUIRED_FIELDS_def)
  have b: "''district'' \<in> set cobb_REQUIRED_FIELDS \<and> civicsource_sample ''district'' = None"
    by (simp add: cobb_REQUIRED_FIELDS_def civicsource_sample_def)
  show ?thesis
    using a b A[THEN conjunct1] A[THEN conjunct2, THEN conjunct1]
      A[THEN conjunct2, THEN conjunct2, THEN conjunct1]
      B[THEN conjunct2, THEN conjunct2, THEN conjunct2]
    by blast
qed

text \<open>
  Claim C9. \<open>validate_required_fields\<close> returns false as soon as one required field
  is mapped to a falsy value, although the key is present: the number 0 (int or float),
  \<open>False\<close>, the empty string and the empty list are such values. Consequently validate
  raises a validation error for a record whose required numeric field is 0, a value that
  lies inside the declared range of the field (assessed value of Civicsource, market
  value of Clayton).
\<close>

theorem falsy_required_field_rejected:
  "(field \<in> set required_fields \<and> data field = Some v \<and> \<not> truthy v \<longrightarrow>
      \<not> validate_required_fields data required_fields) \<and>
   \<not> truthy (PInt 0) \<and> \<not> truthy (PFloat 0) \<and> \<not> truthy (PBool False) \<and>
   \<not> truthy (PStr []) \<and> \<not> truthy (PList []) \<and>
   (data ''assessed_value'' = Some z \<and> (z = PInt 0 \<or> z = PFloat 0) \<longrightarrow>
      civicsource_validate L data = Inl (ValidationError ''Missing required fields'') \<and>
      validate_numeric_range z 0 1000000000 = Inr True) \<and>
   (data ''market_value'' = Some z \<and> (z = PInt 0 \<or> z = PFloat 0) \<longrightarrow>
      clayton_validate L data = Inl (ValidationError ''Missing required fields'') \<and>
      validate_numeric_range z 0 100000000 = Inr True)"
proof -
  have a: "field \<in> set required_fields \<and> data field = Some v \<and> \<not> truthy v \<longrightarrow>
      \<not> validate_required_fields data required_fields"
    using required_fields_falsy[of field required_fields data] by (auto simp add: dict_get_def)
  have b: "data ''assessed_value'' = Some z \<and> (z = PInt 0 \<or> z = PFloat 0) \<longrightarrow>
      civicsource_validate L data = Inl (ValidationError ''Missing required fields'') \<and>
      validate_numeric_range z 0 1000000000 = Inr True"
  proof
    assume h: "data ''assessed_value'' = Some z \<and> (z = PInt 0 \<or> z = PFloat 0)"
    then have "\<not> truthy (dict_get data ''assessed_value'')"
      by (auto simp add: dict_get_def)
    then have "\<not> validate_required_fields data civicsource_REQUIRED_FIELDS"
      by (intro required_fields_falsy[of "''assessed_value''"])
         (simp_all add: civicsource_REQUIRED_FIELDS_def)
    then show "civicsource_validate L data = Inl (ValidationError ''Missing required fields'') \<and>
      validate_numeric_range z 0 1000000000 = Inr True"
      using h civicsource_missing[of data L] by (auto simp add: validate_numeric_range_def)
  qed
  have c: "data ''market_value'' = Some z \<and> (z = PInt 0 \<or> z = PFloat 0) \<longrightarrow>
      clayton_validate L data = Inl (ValidationError ''Missing required fields'') \<and>
      validate_numeric_range z 0 100000000 = Inr True"
  proof
    assume h: "data ''market_value'' = Some z \<and> (z = PInt 0 \<or> z = PFloat 0)"
    then have "\<not> truthy (dict_get data ''market_value'')"
      by (auto simp add: dict_get_def)
    then have "\<not> validate_required_fields data clayton_REQUIRED_FIELDS"
      by (intro required_fields_falsy[of "''market_value''"])
         (simp_all add: clayton_REQUIRED_FIELDS_def)
    then show "clayton_validate L data = Inl (ValidationError ''Missing required fields'') \<and>
      validate_numeric_range z 0 100000000 = Inr True"
      using h clayton_missing[of data L] by (auto simp add: validate_numeric_range_def)
  qed
  show ?thesis using a b c by simp
qed

theorem falsy_required_field_rejected_witness:
  "''assessed_value'' \<in> set civicsource_REQUIRED_FIELDS \<and>
   (civicsource_sample(''assessed_value'' \<mapsto> PInt 0, ''market_value'' \<mapsto> PInt 0))
      ''assessed_value'' = Some (PInt 0) \<and>
   (civicsource_sample(''assessed_value'' \<mapsto> PInt 0, ''market_value'' \<mapsto> PInt 0))
      ''market_value'' = Some (PInt 0) \<and>
   \<not> truthy (PInt 0) \<and>
   \<not> validate_required_fields
        (civicsource_sample(''assessed_value'' \<mapsto> PInt 0, ''market_value'' \<mapsto> PInt 0))
        civicsource_REQUIRED_FIELDS \<and>
   civicsource_validate sample_lib
        (civicsource_sample(''assessed_value'' \<mapsto> PInt 0, ''market_value'' \<mapsto> PInt 0))
     = Inl (ValidationError ''Missing required fields'') \<and>
   clayton_validate sample_lib
        (civicsource_sample(''assessed_value'' \<mapsto> PInt 0, ''market_value'' \<mapsto> PInt 0))
     = Inl (ValidationError ''Missing required fields'')"
  using falsy_required_field_rejected
          [of "''assessed_value''" civicsource_REQUIRED_FIELDS
              "civicsource_sample(''assessed_value'' \<mapsto> PInt 0, ''market_value'' \<mapsto> PInt 0)"
              "PInt 0" "PInt 0" sample_lib]
  by (simp add: civicsource_REQUIRED_FIELDS_def)

section \<open>The tax amount of an integer\<close>

lemma dekalb_accepts_total_due:
  "dekalb_validate L data = Inr b \<Longrightarrow> \<exists>v. data ''total_due'' = Some v \<and> validate_tax_amount v"
  by (auto simp add: dekalb_validate_def dekalb_validate_body_def getitem_def
        split: option.splits)

lemma dekalb_int_total_due_sample:
  "dekalb_validate sample_lib (dekalb_sample(''total_due'' \<mapsto> PInt 3500))
     = Inl (ValidationError ''Invalid total due amount'')"
  by (simp add: validate_defs dekalb_sample_def)

text \<open>
  Claim C10. \<open>validate_tax_amount\<close> returns false for every Python int, whatever its
  size, because only float and Decimal pass its type check. Hence the validate of the
  DeKalb parser raises a validation error for every record whose \<open>total_due\<close> is an
  int, also for an amount strictly between 0 and 10,000,000.
\<close>

theorem int_total_due_rejected:
  "validate_tax_amount (PInt i) = False \<and>
   (data ''total_due'' = Some (PInt i) \<longrightarrow>
      (\<exists>m. dekalb_validate L data = Inl (ValidationError m)))"
proof
  show "validate_tax_amount (PInt i) = False"
    by (simp add: validate_tax_amount_def)
next
  show "data ''total_due'' = Some (PInt i) \<longrightarrow>
      (\<exists>m. dekalb_validate L data = Inl (ValidationError m))"
  proof
    assume td: "data ''total_due'' = Some (PInt i)"
    have "\<not> validate_tax_amount (PInt i)"
      by (simp add: validate_tax_amount_def)
    then have "\<And>b. dekalb_validate L data \<noteq> Inr b"
      using dekalb_accepts_total_due[of L data] td by auto
    then show "\<exists>m. dekalb_validate L data = Inl (ValidationError m)"
      using reraise_cases[of "dekalb_validate_body L data"]
      by (auto simp add: dekalb_validate_def)
  qed
qed

theorem int_total_due_rejected_witness:
  "(dekalb_sample(''total_due'' \<mapsto> PInt 3500)) ''total_due'' = Some (PInt 3500) \<and>
   (0::int) < 3500 \<and> (3500::int) < 10000000 \<and>
   validate_tax_amount (PInt 3500) = False \<and>
   (\<exists>m. dekalb_validate sample_lib (dekalb_sample(''total_due'' \<mapsto> PInt 3500))
          = Inl (ValidationError m))"
  using int_total_due_rejected
          [of 3500 "dekalb_sample(''total_due'' \<mapsto> PInt 3500)" sample_lib]
  by simp

section \<open>Nested transaction scopes\<close>

text \<open>
  Inside a scope the counter is at least 1. Whatever runs there leaves the whole state
  as it was: inner scopes put the counter back and never reach 0, so they neither commit
  nor roll back; the outcome is the first exception of the block.
\<close>

lemma run_inside_scope:
  "count s = Some n \<Longrightarrow> 1 \<le> n \<Longrightarrow> run b s = (raised b, s)"
proof (induction b arbitrary: s n)
  case Pass
  then show ?case by simp
next
  case (Raise e)
  then show ?case by simp
next
  case (Scope b)
  have enter: "count (scope_enter s) = Some (n + 1)"
    using Scope.prems by (simp add: scope_enter_def the_count_def)
  have inner: "run b (scope_enter s) = (raised b, scope_enter s)"
    using Scope.IH[OF enter] Scope.prems by simp
  have restored: "(scope_enter s)\<lparr>count := Some (the_count (scope_enter s) - 1)\<rparr> = s"
    using Scope.prems by (simp add: scope_enter_def the_count_def)
  have "scope_exit (raised b) (scope_enter s) = (raised b, s)"
    using Scope.prems restored
    by (cases "raised b")
       (simp_all add: scope_exit_def scope_handler_def Let_def the_count_def)
  then show ?case using inner by simp
next
  case (Then a b)
  have "run a s = (raised a, s)" using Then.IH(1)[OF Then.prems] .
  moreover have "run b s = (raised b, s)" using Then.IH(2)[OF Then.prems] .
  ultimately show ?case by (cases "raised a") simp_all
qed

text \<open>
  What the code is written for: entered with the counter unset or 0 and with a driver
  whose commit returns, the outermost scope commits once when nothing raised, and rolls
  back once and raises the same exception again when a statement raised.
\<close>

lemma outermost_scope:
  assumes "count s = None \<or> count s = Some 0" and "commit_error s = None"
  shows "transaction_scope body s =
     (raised body,
      s\<lparr>count := Some 0,
        connection := (case raised body of None \<Rightarrow> commit (connection s)
                                         | Some e \<Rightarrow> rollback (connection s))\<rparr>)"
proof -
  have enter: "count (scope_enter s) = Some 1"
    using assms by (auto simp add: scope_enter_def the_count_def)
  have inner: "run body (scope_enter s) = (raised body, scope_enter s)"
    using run_inside_scope[OF enter] by simp
  show ?thesis
    unfolding transaction_scope_def
    using inner assms
    by (cases "raised body")
       (auto simp add: scope_exit_def scope_handler_def scope_enter_def Let_def the_count_def)
qed

text \<open>
  When the commit of the outermost scope raises, the handler decrements the counter a
  second time: the counter is left at -1 and there is no rollback.
\<close>

lemma outermost_scope_commit_raises:
  assumes "count s = None \<or> count s = Some 0" and "commit_error s = Some e"
    and "raised body = None"
  shows "transaction_scope body s =
     (Some e, s\<lparr>count := Some (- 1), connection := failed_commit (connection s)\<rparr>)"
proof -
  have enter: "count (scope_enter s) = Some 1"
    using assms by (auto simp add: scope_enter_def the_count_def)
  have inner: "run body (scope_enter s) = (None, scope_enter s)"
    using run_inside_scope[OF enter, of body] assms by simp
  show ?thesis
    unfolding transaction_scope_def
    using inner assms
    by (auto simp add: scope_exit_def scope_handler_def scope_enter_def Let_def the_count_def)
qed

text \<open>
  Claim C1 does not hold of the code. On a fresh thread the outermost scope has an empty
  block and the commit raises: the exception leaves the scope, no rollback has been
  called, and the counter is left at -1. With the driver working again, from that
  state: an outermost scope whose block returns does not commit at all; an outermost
  scope whose block raises does not roll back; and a scope nested in an outermost scope
  commits.
\<close>

theorem commit_failure_breaks_scope_counting:
  "transaction_scope Pass failing_commit_state =
     (Some (ValueError ''commit failed''),
      after_failed_commit\<lparr>commit_error := Some (ValueError ''commit failed'')\<rparr>) \<and>
   rollbacks (connection after_failed_commit) = 0 \<and>
   count after_failed_commit = Some (- 1) \<and>
   transaction_scope Pass after_failed_commit = (None, after_failed_commit) \<and>
   transaction_scope (Raise (ValueError ''Test error'')) after_failed_commit =
     (Some (ValueError ''Test error''), after_failed_commit) \<and>
   count (scope_enter after_failed_commit) = Some 0 \<and>
   run (Scope Pass) (scope_enter after_failed_commit) =
     (None, (scope_enter after_failed_commit)\<lparr>connection := commit (connection after_failed_commit)\<rparr>) \<and>
   transaction_scope (Scope Pass) after_failed_commit =
     (None, after_failed_commit\<lparr>connection := commit (connection after_failed_commit)\<rparr>)"
  by (simp add: transaction_scope_def failing_commit_state_def fresh_scope_state_def
        after_failed_commit_def scope_enter_def scope_exit_def scope_handler_def
        the_count_def Let_def commit_def rollback_def failed_commit_def)

section \<open>The transaction of a save\<close>


lemma transaction_without_connection:
  "transaction None body = (Inl (DatabaseError ''No database connection available''), None)"
  by (simp add: transaction_def)



section \<open>The matcher against the declarative reading of patterns\<close>

lemma ends_Star_iff:
  "j \<in> set (ends (Star a) s i) \<longleftrightarrow>
     j = i \<or> (\<exists>k \<in> set (ends a s i). i < k \<and> k \<le> length s \<and> j \<in> set (ends (Star a) s k))"
  by (subst ends.simps) auto

lemma ends_sound: "j \<in> set (ends r s i) \<Longrightarrow> matches r s i j"
proof (induction r s i arbitrary: j rule: ends.induct)
  case (1 cs s i)
  then show ?case by (auto intro: m_Cls split: if_splits)
next
  case (2 s i)
  then show ?case by (auto intro: m_Bol split: if_splits)
next
  case (3 s i)
  then show ?case by (auto intro: m_Eol split: if_splits)
next
  case (4 s i)
  then show ?case by (auto intro: m_Eps)
next
  case (5 a b s i)
  from "5.prems" obtain k where k: "k \<in> set (ends a s i)" "j \<in> set (ends b s k)"
    by auto
  show ?case using "5.IH"(1)[OF k(1)] "5.IH"(2)[OF k(1) k(2)] by (rule m_Seq)
next
  case (6 a b s i)
  then show ?case by (auto intro: m_AltL m_AltR)
next
  case (7 a s i)
  from "7.prems" consider "j = i"
    | k where "k \<in> set (ends a s i)" "i < k" "k \<le> length s" "j \<in> set (ends (Star a) s k)"
    using ends_Star_iff[of j a s i] by blast
  then show ?case
  proof cases
    case 1
    then show ?thesis by (simp add: m_Star0)
  next
    case (2 k)
    have "matches a s i k" using "7.IH"(1)[OF 2(1)] .
    moreover have "matches (Star a) s k j" using "7.IH"(2)[OF 2(1) _ 2(4)] 2(2) 2(3) by simp
    ultimately show ?thesis by (rule m_StarS)
  qed
qed

lemma matches_mono: "matches r s i j \<Longrightarrow> i \<le> j"
  by (induction rule: matches.induct) auto

lemma matches_bound: "matches r s i j \<Longrightarrow> i \<le> length s \<Longrightarrow> j \<le> length s"
  by (induction rule: matches.induct) simp_all

lemma ends_complete: "matches r s i j \<Longrightarrow> i \<le> length s \<Longrightarrow> j \<in> set (ends r s i)"
proof (induction rule: matches.induct)
  case (m_Seq a s i k b j)
  have "k \<le> length s" using m_Seq.hyps(1) m_Seq.prems by (rule matches_bound)
  then show ?case using m_Seq.IH m_Seq.prems by auto
next
  case (m_Star0 a s i)
  show ?case using ends_Star_iff[of i a s i] by blast
next
  case (m_StarS a s i k j)
  have ik: "i \<le> k" using m_StarS.hyps(1) by (rule matches_mono)
  have kl: "k \<le> length s" using m_StarS.hyps(1) m_StarS.prems by (rule matches_bound)
  show ?case
  proof (cases "k = i")
    case True
    then show ?thesis using m_StarS.IH(2) m_StarS.prems by simp
  next
    case False
    then have "i < k" using ik by simp
    moreover have "k \<in> set (ends a s i)" using m_StarS.IH(1) m_StarS.prems by simp
    moreover have "j \<in> set (ends (Star a) s k)" using m_StarS.IH(2) kl by simp
    ultimately show ?thesis using kl ends_Star_iff[of j a s i] by blast
  qed
qed simp_all

lemma ends_iff: "i \<le> length s \<Longrightarrow> j \<in> set (ends r s i) \<longleftrightarrow> matches r s i j"
  using ends_sound ends_complete by blast

lemma re_match_iff: "re_match r s \<longleftrightarrow> (\<exists>j. matches r s 0 j)"
proof -
  have "ends r s 0 \<noteq> [] \<longleftrightarrow> (\<exists>j. j \<in> set (ends r s 0))"
    by (cases "ends r s 0") auto
  then show ?thesis by (simp add: re_match_def ends_iff)
qed

lemma re_fullmatch_iff: "re_fullmatch r s \<longleftrightarrow> matches r s 0 (length s)"
  by (simp add: re_fullmatch_def ends_iff)

inductive_cases matches_SeqE: "matches (Seq a b) s i j"

inductive_cases matches_EolE: "matches Eol s i j"

lemma matches_Seq_Eol:
  "matches (Seq r Eol) s i j \<longleftrightarrow> matches r s i j \<and> at_eol s j"
  by (auto elim!: matches_SeqE matches_EolE intro: m_Seq m_Eol)

section \<open>The regex-format rule\<close>

text \<open>
  Claim C4, as stated, fails: the rule is \<open>re.match\<close>, which accepts a value as soon
  as a prefix of it matches. The pattern \<open>ab\<close> matches the proper prefix \<open>ab\<close> of
  the value \<open>abc\<close>, the whole value does not match, and the rule returns true.
\<close>

theorem prefix_match_accepted:
  "validate_string_format (PStr ''abc'') (Seq (lit CHR ''a'') (lit CHR ''b'')) = Inr True \<and>
   re_fullmatch (Seq (lit CHR ''a'') (lit CHR ''b'')) ''abc'' = False \<and>
   re_fullmatch (Seq (lit CHR ''a'') (lit CHR ''b'')) ''ab'' = True"
  by (simp add: validate_string_format_def re_match_val_def re_match_def re_fullmatch_def
        lit_def)

text \<open>
  Claim C4, amended. On a string the regex-format rule returns true if and only if the
  pattern matches the value from its beginning up to some position: a prefix of the
  value matches, the rest of the value is not looked at. When the pattern ends in
  \<open>$\<close>, as every pattern the parsers pass does, that position must be the end of the
  value or the newline that ends the value. On a value that is not a string the rule
  raises \<open>TypeError\<close>.
\<close>

theorem string_format_prefix_match:
  "validate_string_format (PStr s) r = Inr (\<exists>j. j \<le> length s \<and> matches r s 0 j) \<and>
   validate_string_format (PStr s) (Seq r Eol) =
     Inr (matches r s 0 (length s) \<or>
          (\<exists>j. Suc j = length s \<and> s ! j = CHR 0x0A \<and> matches r s 0 j)) \<and>
   ((\<forall>t. v \<noteq> PStr t) \<longrightarrow> (\<exists>m. validate_string_format v r = Inl (TypeError m)))"
proof -
  have bound: "\<And>j. matches r s 0 j \<Longrightarrow> j \<le> length s"
    using matches_bound[of r s 0] by simp
  have a: "validate_string_format (PStr s) r = Inr (\<exists>j. j \<le> length s \<and> matches r s 0 j)"
    using bound by (auto simp add: validate_string_format_def re_match_val_def re_match_iff)
  have b: "validate_string_format (PStr s) (Seq r Eol) =
     Inr (matches r s 0 (length s) \<or>
          (\<exists>j. Suc j = length s \<and> s ! j = CHR 0x0A \<and> matches r s 0 j))"
    by (auto simp add: validate_string_format_def re_match_val_def re_match_iff
          matches_Seq_Eol at_eol_def)
  have c: "(\<forall>t. v \<noteq> PStr t) \<longrightarrow> (\<exists>m. validate_string_format v r = Inl (TypeError m))"
    by (cases v) (simp_all add: validate_string_format_def re_match_val_def)
  show ?thesis using a b c by simp
qed

theorem string_format_prefix_match_witness:
  "validate_string_format (PStr ''abc'') (Seq (lit CHR ''a'') (lit CHR ''b''))
     = Inr (\<exists>j. j \<le> length ''abc'' \<and> matches (Seq (lit CHR ''a'') (lit CHR ''b'')) ''abc'' 0 j) \<and>
   (\<forall>t. PInt 5 \<noteq> PStr t) \<and>
   (\<exists>m. validate_string_format (PInt 5) (Seq (lit CHR ''a'') (lit CHR ''b''))
          = Inl (TypeError m))"
  using string_format_prefix_match
          [of "''abc''" "Seq (lit CHR ''a'') (lit CHR ''b'')" "PInt 5"]
  by simp

section \<open>Numeric ranges\<close>

lemma trunc_example: "trunc (4201 / 2) = 2100"
  by (simp add: trunc_def)

text \<open>
  Claim C3, as stated, fails in three ways. The tax-amount rule has exclusive bounds:
  the declared maximum 10,000,000 and the lower bound 0 are rejected, although both are
  floats. The Clayton validate converts the tax year with \<open>int\<close>: the float 2100.5
  lies outside [1900, 2100] and validate returns true. And a market value that is the
  number 0, the lower bound of its range, makes validate raise, because the
  required-fields check takes it for a missing field.
\<close>

theorem numeric_range_claim_fails:
  "MAX_TAX_AMOUNT = 10000000 \<and>
   validate_tax_amount (PFloat 10000000) = False \<and>
   validate_tax_amount (PFloat 0) = False \<and>
   clayton_validate sample_lib (clayton_sample(''tax_year'' \<mapsto> PFloat (4201 / 2))) = Inr True \<and>
   validate_numeric_range (PFloat (4201 / 2)) 1900 2100 = Inr False \<and>
   clayton_validate sample_lib (clayton_sample(''market_value'' \<mapsto> PFloat 0))
     = Inl (ValidationError ''Missing required fields'') \<and>
   validate_numeric_range (PFloat 0) 0 100000000 = Inr True"
  by (simp add: validate_defs clayton_sample_def trunc_example)

lemma require_Inr_bool:
  "require (Inr b) msg k = (if b then k else Inl (ValidationError msg))"
  by (simp add: require_def)

lemma numeric_zero_falsy: "py_num z = Some 0 \<Longrightarrow> \<not> truthy z"
  by (cases z) (simp_all split: if_splits)

lemma clayton_ranges:
  assumes "validate_required_fields data clayton_REQUIRED_FIELDS"
    and "data ''parcel_id'' = Some (PStr p)" and "re_match parcel_id_pattern p"
    and "data ''market_value'' = Some vm" and "py_float L vm = Inr m"
    and "data ''tax_year'' = Some vy" and "py_int L vy = Inr y"
  shows "clayton_validate L data =
     (if 0 \<le> m \<and> m \<le> 100000000
      then if 1900 \<le> y \<and> y \<le> 2100 then Inr True
           else Inl (ValidationError ''Invalid tax year'')
      else Inl (ValidationError ''Invalid market value''))"
  using assms
  by (simp add: clayton_validate_def clayton_validate_body_def getitem_def
        validate_string_format_def re_match_val_def validate_numeric_range_def
        reraise_ValidationError_def require_Inr_bool)

lemma civicsource_ranges:
  assumes "validate_required_fields data civicsource_REQUIRED_FIELDS"
    and "data ''property_id'' = Some (PStr p)" and "re_match property_id_pattern p"
    and "data ''assessed_value'' = Some va" and "py_float L va = Inr a"
    and "data ''coordinates'' = Some (PDict kvs)"
    and "py_num (assoc_get kvs ''lat'' (PInt 0)) = Some la"
    and "py_num (assoc_get kvs ''lon'' (PInt 0)) = Some lo"
  shows "civicsource_validate L data =
     (if 0 \<le> a \<and> a \<le> 1000000000
      then if - 90 \<le> la \<and> la \<le> 90 \<and> - 180 \<le> lo \<and> lo \<le> 180 then Inr True
           else Inl (ValidationError ''Invalid coordinates'')
      else Inl (ValidationError ''Invalid assessed value''))"
  using assms
  by (simp add: civicsource_validate_def civicsource_validate_body_def getitem_def
        validate_string_format_def re_match_val_def validate_numeric_range_def
        coords_ok_def reraise_ValidationError_def require_Inr_bool)

lemma dekalb_ranges:
  assumes "validate_required_fields data dekalb_REQUIRED_FIELDS"
    and "data ''tax_id'' = Some (PStr p)" and "re_match dekalb_id_pattern p"
    and "data ''assessed_value'' = Some va" and "py_float L va = Inr a"
    and "data ''coordinates'' = Some (PDict kvs)"
    and "py_num (assoc_get kvs ''lat'' (PInt 0)) = Some la"
    and "py_num (assoc_get kvs ''lon'' (PInt 0)) = Some lo"
    and "data ''property_class'' = Some (PStr pc)"
    and "data ''total_due'' = Some td"
    and "data ''sale_date'' = Some (PStr sd)"
  shows "dekalb_validate L data =
     (if \<not> (0 \<le> a \<and> a \<le> 1000000000) then Inl (ValidationError ''Invalid assessed value'')
      else if \<not> (DEKALB_LAT_MIN \<le> la \<and> la \<le> DEKALB_LAT_MAX \<and>
                  DEKALB_LON_MIN \<le> lo \<and> lo \<le> DEKALB_LON_MAX)
        then Inl (ValidationError ''Invalid coordinates for DeKalb County'')
      else if \<not> re_match property_class_pattern pc
        then Inl (ValidationError ''Invalid property class format'')
      else if \<not> validate_tax_amount td
        then Inl (ValidationError ''Invalid total due amount'')
      else if \<not> strptime_ok L sd ''%Y-%m-%d''
        then Inl (ValidationError ''Invalid sale date format'')
      else Inr True)"
  using assms
  by (simp add: dekalb_validate_def dekalb_validate_body_def getitem_def
        validate_dekalb_id_def validate_string_format_def re_match_val_def
        validate_numeric_range_def validate_date_format_def
        coords_ok_def reraise_ValidationError_def require_Inr_bool)

text \<open>
  Claim C3, amended. The generic numeric-range rule returns true exactly for the numbers
  with \<open>min \<le> value \<le> max\<close>, both bounds included, and raises \<open>TypeError\<close> on a value
  that is not a number. The validate methods of Clayton, Civicsource and DeKalb apply it,
  in the order of the source, to \<open>float(value)\<close> of the field, to \<open>int(value)\<close> for the
  tax year of Clayton (which truncates a float towards zero), and to the latitude and
  longitude themselves (0 when the dictionary lacks them). A field that is the number 0
  fails the required-fields check before. For a record that passed the required-fields
  check and the identifier rule, whose fields convert and whose coordinates are numbers in
  a dictionary, validate raises the error of the first numeric rule whose converted value
  lies outside its declared range, and only of such a rule; when all lie inside, Clayton
  and Civicsource return true, and DeKalb (given strings for property class and sale
  date) goes on to its property-class, tax-amount and date rules. The tax-amount rule
  accepts exactly the float and Decimal values with \<open>0 < value < 10,000,000\<close>: both of
  its bounds, and every value of another type, are rejected.
\<close>

theorem numeric_range_rules:
  "(py_num v = Some x \<longrightarrow> validate_numeric_range v lo hi = Inr (lo \<le> x \<and> x \<le> hi)) \<and>
   (py_num w = None \<longrightarrow> (\<exists>msg. validate_numeric_range w lo hi = Inl (TypeError msg))) \<and>
   (validate_tax_amount u \<longleftrightarrow>
      (\<exists>t. (u = PFloat t \<or> u = PDecimal t) \<and> 0 < t \<and> t < 10000000)) \<and>
   (field \<in> set required_fields \<and> data0 field = Some z \<and> py_num z = Some 0 \<longrightarrow>
      \<not> validate_required_fields data0 required_fields) \<and>
   (validate_required_fields data clayton_REQUIRED_FIELDS \<and>
    data ''parcel_id'' = Some (PStr p) \<and> re_match parcel_id_pattern p \<and>
    data ''market_value'' = Some vm \<and> py_float L vm = Inr m \<and>
    data ''tax_year'' = Some vy \<and> py_int L vy = Inr y \<longrightarrow>
      clayton_validate L data =
        (if 0 \<le> m \<and> m \<le> 100000000
         then if 1900 \<le> y \<and> y \<le> 2100 then Inr True
              else Inl (ValidationError ''Invalid tax year'')
         else Inl (ValidationError ''Invalid market value''))) \<and>
   (validate_required_fields data' civicsource_REQUIRED_FIELDS \<and>
    data' ''property_id'' = Some (PStr q) \<and> re_match property_id_pattern q \<and>
    data' ''assessed_value'' = Some va \<and> py_float L va = Inr a \<and>
    data' ''coordinates'' = Some (PDict kvs) \<and>
    py_num (assoc_get kvs ''lat'' (PInt 0)) = Some la \<and>
    py_num (assoc_get kvs ''lon'' (PInt 0)) = Some lon \<longrightarrow>
      civicsource_validate L data' =
        (if 0 \<le> a \<and> a \<le> 1000000000
         then if - 90 \<le> la \<and> la \<le> 90 \<and> - 180 \<le> lon \<and> lon \<le> 180 then Inr True
              else Inl (ValidationError ''Invalid coordinates'')
         else Inl (ValidationError ''Invalid assessed value''))) \<and>
   (validate_required_fields data'' dekalb_REQUIRED_FIELDS \<and>
    data'' ''tax_id'' = Some (PStr i) \<and> re_match dekalb_id_pattern i \<and>
    data'' ''assessed_value'' = Some vb \<and> py_float L vb = Inr b \<and>
    data'' ''coordinates'' = Some (PDict kvs') \<and>
    py_num (assoc_get kvs' ''lat'' (PInt 0)) = Some la' \<and>
    py_num (assoc_get kvs' ''lon'' (PInt 0)) = Some lon' \<and>
    data'' ''property_class'' = Some (PStr pc) \<and>
    data'' ''total_due'' = Some td \<and>
    data'' ''sale_date'' = Some (PStr sd) \<longrightarrow>
      dekalb_validate L data'' =
        (if \<not> (0 \<le> b \<and> b \<le> 1000000000) then Inl (ValidationError ''Invalid assessed value'')
         else if \<not> (DEKALB_LAT_MIN \<le> la' \<and> la' \<le> DEKALB_LAT_MAX \<and>
                     DEKALB_LON_MIN \<le> lon' \<and> lon' \<le> DEKALB_LON_MAX)
           then Inl (ValidationError ''Invalid coordinates for DeKalb County'')
         else if \<not> re_match property_class_pattern pc
           then Inl (ValidationError ''Invalid property class format'')
         else if \<not> validate_tax_amount td
           then Inl (ValidationError ''Invalid total due amount'')
         else if \<not> strptime_ok L sd ''%Y-%m-%d''
           then Inl (ValidationError ''Invalid sale date format'')
         else Inr True))"
proof -
  have a: "py_num v = Some x \<longrightarrow> validate_numeric_range v lo hi = Inr (lo \<le> x \<and> x \<le> hi)"
    by (simp add: validate_numeric_range_def)
  have b: "py_num w = None \<longrightarrow> (\<exists>msg. validate_numeric_range w lo hi = Inl (TypeError msg))"
    by (simp add: validate_numeric_range_def)
  have c: "validate_tax_amount u \<longleftrightarrow>
      (\<exists>t. (u = PFloat t \<or> u = PDecimal t) \<and> 0 < t \<and> t < 10000000)"
    by (cases u) (auto simp add: validate_tax_amount_def MAX_TAX_AMOUNT_def)
  have d: "field \<in> set required_fields \<and> data0 field = Some z \<and> py_num z = Some 0 \<longrightarrow>
      \<not> validate_required_fields data0 required_fields"
    using required_fields_falsy[of field required_fields data0] numeric_zero_falsy[of z]
    by (auto simp add: dict_get_def)
  have e: "validate_required_fields data clayton_REQUIRED_FIELDS \<and>
    data ''parcel_id'' = Some (PStr p) \<and> re_match parcel_id_pattern p \<and>
    data ''market_value'' = Some vm \<and> py_float L vm = Inr m \<and>
    data ''tax_year'' = Some vy \<and> py_int L vy = Inr y \<longrightarrow>
      clayton_validate L data =
        (if 0 \<le> m \<and> m \<le> 100000000
         then if 1900 \<le> y \<and> y \<le> 2100 then Inr True
              else Inl (ValidationError ''Invalid tax year'')
         else Inl (ValidationError ''Invalid market value''))"
    using clayton_ranges[of data p vm L m vy y] by blast
  have f: "validate_required_fields data' civicsource_REQUIRED_FIELDS \<and>
    data' ''property_id'' = Some (PStr q) \<and> re_match property_id_pattern q \<and>
    data' ''assessed_value'' = Some va \<and> py_float L va = Inr a \<and>
    data' ''coordinates'' = Some (PDict kvs) \<and>
    py_num (assoc_get kvs ''lat'' (PInt 0)) = Some la \<and>
    py_num (assoc_get kvs ''lon'' (PInt 0)) = Some lon \<longrightarrow>
      civicsource_validate L data' =
        (if 0 \<le> a \<and> a \<le> 1000000000
         then if - 90 \<le> la \<and> la \<le> 90 \<and> - 180 \<le> lon \<and> lon \<le> 180 then Inr True
              else Inl (ValidationError ''Invalid coordinates'')
         else Inl (ValidationError ''Invalid assessed value''))"
    using civicsource_ranges[of data' q va L a kvs la lon] by blast
  have g: "validate_required_fields data'' dekalb_REQUIRED_FIELDS \<and>
    data'' ''tax_id'' = Some (PStr i) \<and> re_match dekalb_id_pattern i \<and>
    data'' ''assessed_value'' = Some vb \<and> py_float L vb = Inr b \<and>
    data'' ''coordinates'' = Some (PDict kvs') \<and>
    py_num (assoc_get kvs' ''lat'' (PInt 0)) = Some la' \<and>
    py_num (assoc_get kvs' ''lon'' (PInt 0)) = Some lon' \<and>
    data'' ''property_class'' = Some (PStr pc) \<and>
    data'' ''total_due'' = Some td \<and>
    data'' ''sale_date'' = Some (PStr sd) \<longrightarrow>
      dekalb_validate L data'' =
        (if \<not> (0 \<le> b \<and> b \<le> 1000000000) then Inl (ValidationError ''Invalid assessed value'')
         else if \<not> (DEKALB_LAT_MIN \<le> la' \<and> la' \<le> DEKALB_LAT_MAX \<and>
                     DEKALB_LON_MIN \<le> lon' \<and> lon' \<le> DEKALB_LON_MAX)
           then Inl (ValidationError ''Invalid coordinates for DeKalb County'')
         else if \<not> re_match property_class_pattern pc
           then Inl (ValidationError ''Invalid property class format'')
         else if \<not> validate_tax_amount td
           then Inl (ValidationError ''Invalid total due amount'')
         else if \<not> strptime_ok L sd ''%Y-%m-%d''
           then Inl (ValidationError ''Invalid sale date format'')
         else Inr True)"
    using dekalb_ranges[of data'' i vb L b kvs' la' lon' pc td sd] by blast
  show ?thesis
    by (intro conjI a b c d e f g)
qed

theorem numeric_range_rules_witness:
  "py_num (PInt 2100) = Some 2100 \<and>
   validate_numeric_range (PInt 2100) 1900 2100 = Inr True \<and>
   py_num (PStr ''2023'') = None \<and>
   (\<exists>msg. validate_numeric_range (PStr ''2023'') 1900 2100 = Inl (TypeError msg)) \<and>
   validate_tax_amount (PFloat (7001 / 2)) \<and>
   ''market_value'' \<in> set clayton_REQUIRED_FIELDS \<and>
   py_num (PFloat 0) = Some 0 \<and>
   \<not> validate_required_fields (clayton_sample(''market_value'' \<mapsto> PFloat 0))
        clayton_REQUIRED_FIELDS \<and>
   py_float sample_lib (PStr ''0'') = Inr 0 \<and>
   py_int sample_lib (PFloat (4201 / 2)) = Inr 2100 \<and>
   clayton_validate sample_lib
     (clayton_sample(''market_value'' \<mapsto> PStr ''0'', ''tax_year'' \<mapsto> PFloat (4201 / 2)))
     = Inr True \<and>
   py_float sample_lib (PFloat 1000000000) = Inr 1000000000 \<and>
   civicsource_validate sample_lib (civicsource_sample(''assessed_value'' \<mapsto> PFloat 1000000000))
     = Inr True \<and>
   dekalb_validate sample_lib
     (dekalb_sample(''coordinates'' \<mapsto>
        PDict [(''lat'', PFloat DEKALB_LAT_MAX), (''lon'', PFloat DEKALB_LON_MIN)]))
     = Inr True"
proof -
  let ?C = "clayton_sample(''market_value'' \<mapsto> PStr ''0'', ''tax_year'' \<mapsto> PFloat (4201 / 2))"
  let ?Z = "clayton_sample(''market_value'' \<mapsto> PFloat 0)"
  let ?V = "civicsource_sample(''assessed_value'' \<mapsto> PFloat 1000000000)"
  let ?K = "[(''lat'', PFloat DEKALB_LAT_MAX), (''lon'', PFloat DEKALB_LON_MIN)]"
  let ?D = "dekalb_sample(''coordinates'' \<mapsto> PDict ?K)"
  note T = numeric_range_rules
    [where v = "PInt 2100" and x = 2100 and lo = 1900 and hi = 2100 and w = "PStr ''2023''"
       and u = "PFloat (7001 / 2)"
       and field = "''market_value''" and required_fields = clayton_REQUIRED_FIELDS
       and ?data0.0 = ?Z and z = "PFloat 0"
       and data = ?C and p = "''12-345-678''" and vm = "PStr ''0''" and L = sample_lib
       and m = 0 and vy = "PFloat (4201 / 2)" and y = 2100
       and data' = ?V and q = "''ABC-12345''" and va = "PFloat 1000000000" and a = 1000000000
       and kvs = "[(''lat'', PFloat (163 / 4)), (''lon'', PFloat (- 74))]"
       and la = "163 / 4" and lon = "- 74"
       and data'' = ?D and i = "''123456-01''" and vb = "PFloat 250000" and b = 250000
       and kvs' = ?K and la' = DEKALB_LAT_MAX and lon' = DEKALB_LON_MIN
       and pc = "''R03''" and td = "PFloat (7001 / 2)" and sd = "''2023-06-15''"]
  have n: "py_num (PInt 2100) = Some 2100" by simp
  have r: "validate_numeric_range (PInt 2100) 1900 2100 = Inr True"
    using T[THEN conjunct1] n by simp
  have s: "py_num (PStr ''2023'') = None" by simp
  have e: "\<exists>msg. validate_numeric_range (PStr ''2023'') 1900 2100 = Inl (TypeError msg)"
    using T[THEN conjunct2, THEN conjunct1] s by blast
  have inside: "\<exists>t. (PFloat (7001 / 2) = PFloat t \<or> PFloat (7001 / 2) = PDecimal t) \<and>
                    0 < t \<and> t < 10000000"
    by (rule exI[of _ "7001 / 2"]) simp
  have t: "validate_tax_amount (PFloat (7001 / 2))"
    using T[THEN conjunct2, THEN conjunct2, THEN conjunct1] inside by blast
  have z1: "''market_value'' \<in> set clayton_REQUIRED_FIELDS \<and> py_num (PFloat 0) = Some 0 \<and>
            ?Z ''market_value'' = Some (PFloat 0)"
    by (simp add: clayton_REQUIRED_FIELDS_def)
  have z: "\<not> validate_required_fields ?Z clayton_REQUIRED_FIELDS"
    using T[THEN conjunct2, THEN conjunct2, THEN conjunct2, THEN conjunct1] z1 by blast
  have c1: "validate_required_fields ?C clayton_REQUIRED_FIELDS"
    by (simp add: clayton_sample_def validate_required_fields_def dict_get_def
          clayton_REQUIRED_FIELDS_def)
  have c2: "re_match parcel_id_pattern ''12-345-678''"
    by (simp add: re_match_def parcel_id_pattern_def digit_def lit_def at_eol_def)
  have c3: "?C ''parcel_id'' = Some (PStr ''12-345-678'') \<and>
            ?C ''market_value'' = Some (PStr ''0'') \<and>
            ?C ''tax_year'' = Some (PFloat (4201 / 2))"
    by (simp add: clayton_sample_def)
  have c4: "py_float sample_lib (PStr ''0'') = Inr 0"
    by (simp add: sample_lib_def)
  have c5: "py_int sample_lib (PFloat (4201 / 2)) = Inr 2100"
    by (simp add: trunc_example)
  have c: "clayton_validate sample_lib ?C = Inr True"
    using T[THEN conjunct2, THEN conjunct2, THEN conjunct2, THEN conjunct2, THEN conjunct1]
      c1 c2 c3 c4 c5 by simp
  have v1: "validate_required_fields ?V civicsource_REQUIRED_FIELDS"
    by (simp add: civicsource_sample_def validate_required_fields_def dict_get_def
          civicsource_REQUIRED_FIELDS_def)
  have v2: "re_match property_id_pattern ''ABC-12345''"
    by (simp add: re_match_def property_id_pattern_def digit_def upper_def lit_def at_eol_def)
  have v3: "?V ''property_id'' = Some (PStr ''ABC-12345'') \<and>
            ?V ''assessed_value'' = Some (PFloat 1000000000) \<and>
            ?V ''coordinates'' =
              Some (PDict [(''lat'', PFloat (163 / 4)), (''lon'', PFloat (- 74))]) \<and>
            py_num (assoc_get [(''lat'', PFloat (163 / 4)), (''lon'', PFloat (- 74))]
                      ''lat'' (PInt 0)) = Some (163 / 4) \<and>
            py_num (assoc_get [(''lat'', PFloat (163 / 4)), (''lon'', PFloat (- 74))]
                      ''lon'' (PInt 0)) = Some (- 74)"
    by (simp add: civicsource_sample_def assoc_get_def)
  have v4: "py_float sample_lib (PFloat 1000000000) = Inr 1000000000" by simp
  have v: "civicsource_validate sample_lib ?V = Inr True"
    using T[THEN conjunct2, THEN conjunct2, THEN conjunct2, THEN conjunct2, THEN conjunct2,
            THEN conjunct1]
      v1 v2 v3 v4 by simp
  have d1: "validate_required_fields ?D dekalb_REQUIRED_FIELDS"
    by (simp add: dekalb_sample_def validate_required_fields_def dict_get_def
          dekalb_REQUIRED_FIELDS_def)
  have d2: "re_match dekalb_id_pattern ''123456-01'' \<and> re_match property_class_pattern ''R03'' \<and>
            strptime_ok sample_lib ''2023-06-15'' ''%Y-%m-%d''"
    by (simp add: re_match_def re_fullmatch_def dekalb_id_pattern_def property_class_pattern_def
          sample_date_pattern_def sample_lib_def digit_def upper_def lit_def at_eol_def)
  have d3: "?D ''tax_id'' = Some (PStr ''123456-01'') \<and>
            ?D ''assessed_value'' = Some (PFloat 250000) \<and>
            ?D ''coordinates'' = Some (PDict ?K) \<and>
            py_num (assoc_get ?K ''lat'' (PInt 0)) = Some DEKALB_LAT_MAX \<and>
            py_num (assoc_get ?K ''lon'' (PInt 0)) = Some DEKALB_LON_MIN \<and>
            ?D ''property_class'' = Some (PStr ''R03'') \<and>
            ?D ''total_due'' = Some (PFloat (7001 / 2)) \<and>
            ?D ''sale_date'' = Some (PStr ''2023-06-15'')"
    by (simp add: dekalb_sample_def assoc_get_def)
  have d4: "py_float sample_lib (PFloat 250000) = Inr 250000" by simp
  have d5: "DEKALB_LAT_MIN \<le> DEKALB_LAT_MAX \<and> DEKALB_LON_MIN \<le> DEKALB_LON_MAX"
    by (simp add: DEKALB_LAT_MIN_def DEKALB_LAT_MAX_def DEKALB_LON_MIN_def DEKALB_LON_MAX_def)
  have d: "dekalb_validate sample_lib ?D = Inr True"
    using T[THEN conjunct2, THEN conjunct2, THEN conjunct2, THEN conjunct2, THEN conjunct2,
            THEN conjunct2]
      d1 d2 d3 d4 d5 t by simp
  show ?thesis
    using n r s e t z1 z c4 c5 c v4 v d by blast
qed

section \<open>The session of the DeKalb parser\<close>

lemma authenticate_posts:
  "posts (snd (authenticate server now p)) = posts p @ [Login]"
  by (simp add: authenticate_def Let_def store_token_def split: reply.splits option.splits)

lemma civicsource_parse_posts:
  "posts (snd (civicsource_parse L src (p :: dekalb_parser))) = posts p"
  by (simp add: civicsource_parse_def load_source_def
        split: source.splits sum.splits prod.splits option.splits)

lemma refresh_session_expired:
  assumes "auth_token p = Some t" and "t \<noteq> []" and "token_expiry p = Some e" and "e \<le> now"
  shows "refresh_session server now p =
     (case server Refresh of
        Failure m \<Rightarrow> authenticate server now (p\<lparr>posts := posts p @ [Refresh]\<rparr>)
      | Json None \<Rightarrow> (Inl (KeyError ''token''), p\<lparr>posts := posts p @ [Refresh]\<rparr>)
      | Json (Some t') \<Rightarrow> (Inr True, store_token t' now (p\<lparr>posts := posts p @ [Refresh]\<rparr>)))"
  using assms by (simp add: refresh_session_def no_token_def Let_def)

lemma refresh_session_expired_posts:
  assumes "auth_token p = Some t" and "t \<noteq> []" and "token_expiry p = Some e" and "e \<le> now"
  shows "new_posts p (snd (refresh_session server now p)) =
     (case server Refresh of Failure m \<Rightarrow> [Refresh, Login] | Json b \<Rightarrow> [Refresh])"
  unfolding refresh_session_expired[OF assms] new_posts_def
  by (simp add: authenticate_posts store_token_def split: reply.splits option.splits)

lemma dekalb_parse_posts:
  "posts (snd (dekalb_parse L server now src p)) = posts (snd (refresh_session server now p))"
  by (simp add: dekalb_parse_def civicsource_parse_posts split: prod.splits sum.splits)

text \<open>
  Claim C8. A DeKalb parser that holds a token whose expiry is not after the current
  time: \<open>refresh_session\<close>, and so \<open>parse\<close>, which calls it first, posts exactly one
  refresh request. When the server answers it with a token the session is refreshed and
  nothing else is posted. When the refresh request fails, the refresh is not repeated:
  the method continues as one call of \<open>authenticate\<close>, which posts exactly one login
  request. A parser whose token has not expired yet makes no request at all and its
  state is unchanged.
\<close>

theorem expired_token_one_refresh_then_login:
  "auth_token p = Some t \<and> t \<noteq> [] \<and> token_expiry p = Some e \<longrightarrow>
     (e \<le> now \<longrightarrow>
        new_posts p (snd (refresh_session server now p)) =
          (case server Refresh of Failure m \<Rightarrow> [Refresh, Login] | Json b \<Rightarrow> [Refresh]) \<and>
        new_posts p (snd (dekalb_parse L server now src p)) =
          (case server Refresh of Failure m \<Rightarrow> [Refresh, Login] | Json b \<Rightarrow> [Refresh]) \<and>
        (\<forall>m. server Refresh = Failure m \<longrightarrow>
           refresh_session server now p =
             authenticate server now (p\<lparr>posts := posts p @ [Refresh]\<rparr>)) \<and>
        (\<forall>t'. server Refresh = Json (Some t') \<longrightarrow>
           fst (refresh_session server now p) = Inr True \<and>
           auth_token (snd (refresh_session server now p)) = Some t' \<and>
           token_expiry (snd (refresh_session server now p)) = Some (now + token_lifetime))) \<and>
     (now < e \<longrightarrow> refresh_session server now p = (Inr True, p))"
proof
  assume h: "auth_token p = Some t \<and> t \<noteq> [] \<and> token_expiry p = Some e"
  then have tok: "auth_token p = Some t" and ne: "t \<noteq> []" and ex: "token_expiry p = Some e"
    by simp_all
  have expired: "e \<le> now \<longrightarrow>
        new_posts p (snd (refresh_session server now p)) =
          (case server Refresh of Failure m \<Rightarrow> [Refresh, Login] | Json b \<Rightarrow> [Refresh]) \<and>
        new_posts p (snd (dekalb_parse L server now src p)) =
          (case server Refresh of Failure m \<Rightarrow> [Refresh, Login] | Json b \<Rightarrow> [Refresh]) \<and>
        (\<forall>m. server Refresh = Failure m \<longrightarrow>
           refresh_session server now p =
             authenticate server now (p\<lparr>posts := posts p @ [Refresh]\<rparr>)) \<and>
        (\<forall>t'. server Refresh = Json (Some t') \<longrightarrow>
           fst (refresh_session server now p) = Inr True \<and>
           auth_token (snd (refresh_session server now p)) = Some t' \<and>
           token_expiry (snd (refresh_session server now p)) = Some (now + token_lifetime))"
  proof
    assume le: "e \<le> now"
    note R = refresh_session_expired[OF tok ne ex le, of server]
    note P = refresh_session_expired_posts[OF tok ne ex le, of server]
    have P': "new_posts p (snd (dekalb_parse L server now src p)) =
          (case server Refresh of Failure m \<Rightarrow> [Refresh, Login] | Json b \<Rightarrow> [Refresh])"
      using P by (simp add: new_posts_def dekalb_parse_posts)
    have F: "\<forall>m. server Refresh = Failure m \<longrightarrow>
           refresh_session server now p =
             authenticate server now (p\<lparr>posts := posts p @ [Refresh]\<rparr>)"
      using R by simp
    have S: "\<forall>t'. server Refresh = Json (Some t') \<longrightarrow>
           fst (refresh_session server now p) = Inr True \<and>
           auth_token (snd (refresh_session server now p)) = Some t' \<and>
           token_expiry (snd (refresh_session server now p)) = Some (now + token_lifetime)"
      using R by (simp add: store_token_def)
    show "new_posts p (snd (refresh_session server now p)) =
          (case server Refresh of Failure m \<Rightarrow> [Refresh, Login] | Json b \<Rightarrow> [Refresh]) \<and>
        new_posts p (snd (dekalb_parse L server now src p)) =
          (case server Refresh of Failure m \<Rightarrow> [Refresh, Login] | Json b \<Rightarrow> [Refresh]) \<and>
        (\<forall>m. server Refresh = Failure m \<longrightarrow>
           refresh_session server now p =
             authenticate server now (p\<lparr>posts := posts p @ [Refresh]\<rparr>)) \<and>
        (\<forall>t'. server Refresh = Json (Some t') \<longrightarrow>
           fst (refresh_session server now p) = Inr True \<and>
           auth_token (snd (refresh_session server now p)) = Some t' \<and>
           token_expiry (snd (refresh_session server now p)) = Some (now + token_lifetime))"
      using P P' F S by blast
  qed
  have valid: "now < e \<longrightarrow> refresh_session server now p = (Inr True, p)"
    using tok ne ex by (simp add: refresh_session_def no_token_def)
  show "(e \<le> now \<longrightarrow>
        new_posts p (snd (refresh_session server now p)) =
          (case server Refresh of Failure m \<Rightarrow> [Refresh, Login] | Json b \<Rightarrow> [Refresh]) \<and>
        new_posts p (snd (dekalb_parse L server now src p)) =
          (case server Refresh of Failure m \<Rightarrow> [Refresh, Login] | Json b \<Rightarrow> [Refresh]) \<and>
        (\<forall>m. server Refresh = Failure m \<longrightarrow>
           refresh_session server now p =
             authenticate server now (p\<lparr>posts := posts p @ [Refresh]\<rparr>)) \<and>
        (\<forall>t'. server Refresh = Json (Some t') \<longrightarrow>
           fst (refresh_session server now p) = Inr True \<and>
           auth_token (snd (refresh_session server now p)) = Some t' \<and>
           token_expiry (snd (refresh_session server now p)) = Some (now + token_lifetime))) \<and>
     (now < e \<longrightarrow> refresh_session server now p = (Inr True, p))"
    using expired valid by blast
qed

theorem expired_token_one_refresh_then_login_witness:
  "auth_token expired_parser = Some ''expired_token'' \<and> ''expired_token'' \<noteq> [] \<and>
   token_expiry expired_parser = Some 1000 \<and> (1000::int) \<le> 5000 \<and>
   refresh_down_server Refresh = Failure ''503 Server Error'' \<and>
   new_posts expired_parser (snd (refresh_session refresh_down_server 5000 expired_parser))
     = [Refresh, Login] \<and>
   refresh_session refresh_down_server 5000 expired_parser
     = authenticate refresh_down_server 5000
         (expired_parser\<lparr>posts := posts expired_parser @ [Refresh]\<rparr>) \<and>
   (500::int) < 1000 \<and>
   refresh_session refresh_down_server 500 expired_parser = (Inr True, expired_parser)"
proof -
  have h: "auth_token expired_parser = Some ''expired_token'' \<and> ''expired_token'' \<noteq> [] \<and>
           token_expiry expired_parser = Some 1000"
    by (simp add: expired_parser_def dekalb_init_def)
  have s: "refresh_down_server Refresh = Failure ''503 Server Error''"
    by (simp add: refresh_down_server_def)
  note A = expired_token_one_refresh_then_login
             [of expired_parser "''expired_token''" 1000 5000 refresh_down_server
                 sample_lib NoSource, THEN mp, OF h]
  note B = expired_token_one_refresh_then_login
             [of expired_parser "''expired_token''" 1000 500 refresh_down_server
                 sample_lib NoSource, THEN mp, OF h]
  have le: "(1000::int) \<le> 5000" by simp
  note A1 = A[THEN conjunct1, THEN mp, OF le]
  have a1: "new_posts expired_parser (snd (refresh_session refresh_down_server 5000 expired_parser))
     = [Refresh, Login]"
    using A1[THEN conjunct1] by (simp add: s)
  have a2: "refresh_session refresh_down_server 5000 expired_parser
     = authenticate refresh_down_server 5000
         (expired_parser\<lparr>posts := posts expired_parser @ [Refresh]\<rparr>)"
    using A1[THEN conjunct2, THEN conjunct2, THEN conjunct1] s by blast
  have b1: "refresh_session refresh_down_server 500 expired_parser = (Inr True, expired_parser)"
    using B[THEN conjunct2] by simp
  show ?thesis using h s a1 a2 b1 by simp
qed

section \<open>clean\<close>

text \<open>On a parser that never parsed, clean does nothing, however often it is called.\<close>

lemma clean_fresh:
  "civicsource_clean civicsource_init = (None, civicsource_init) \<and>
   clayton_excel_clean tabular_init = (None, tabular_init) \<and>
   govease_clean tabular_init = (None, tabular_init)"
  by (simp add: civicsource_clean_def clayton_excel_clean_def govease_clean_def
        civicsource_init_def tabular_init_def)

text \<open>
  The clean of GovEaseParser sets the attribute to \<open>None\<close> again after deleting it:
  a second call finds \<open>None\<close> and changes nothing.
\<close>

lemma govease_clean_idempotent:
  "data_frame p = Attr df \<Longrightarrow>
     fst (govease_clean p) = None \<and>
     govease_clean (snd (govease_clean p)) = (None, snd (govease_clean p))"
  by (simp add: govease_clean_def)

text \<open>
  The clean of CivicsourceParser and of ClaytonExcelParser deletes the attribute and
  leaves it deleted: after a table was read, the second call raises.
\<close>

lemma civicsource_clean_after_read:
  "data_frame p = Attr (Some df) \<Longrightarrow> gis_data p = Attr g \<Longrightarrow>
     fst (civicsource_clean p) = None \<and>
     fst (civicsource_clean (snd (civicsource_clean p)))
       = Some (AttributeError ''object has no attribute data_frame'')"
  by (simp add: civicsource_clean_def Let_def)

lemma clayton_excel_clean_after_read:
  "data_frame p = Attr (Some df) \<Longrightarrow>
     fst (clayton_excel_clean p) = None \<and>
     fst (clayton_excel_clean (snd (clayton_excel_clean p)))
       = Some (AttributeError ''object has no attribute data_frame'')"
  by (simp add: clayton_excel_clean_def)

lemmas parse_defs =
  civicsource_parse_def load_source_def transform_data_def transform_tabular_data_def
  transform_tabular_row_def read_attr_def iloc0_def row_get_def py_str_def empty_str_def
  clayton_excel_parse_def transform_row_def getitem_def Let_def

text \<open>
  Claim C7 does not hold of the code. A CivicsourceParser parses a table with success;
  the first clean returns; the second clean raises \<open>AttributeError\<close>, because the first
  one removed the attribute \<open>data_frame\<close> that the second one reads. The same happens
  with a ClaytonExcelParser.
\<close>

theorem clean_twice_after_parse_raises:
  "\<not> isl (fst (civicsource_parse sample_lib (ExcelPath (Inr [civicsource_row])) civicsource_init)) \<and>
   fst (civicsource_clean
     (snd (civicsource_parse sample_lib (ExcelPath (Inr [civicsource_row])) civicsource_init)))
     = None \<and>
   fst (civicsource_clean (snd (civicsource_clean
     (snd (civicsource_parse sample_lib (ExcelPath (Inr [civicsource_row])) civicsource_init)))))
     = Some (AttributeError ''object has no attribute data_frame'') \<and>
   \<not> isl (fst (clayton_excel_parse sample_lib (Inr [clayton_row]) tabular_init)) \<and>
   fst (clayton_excel_clean
     (snd (clayton_excel_parse sample_lib (Inr [clayton_row]) tabular_init))) = None \<and>
   fst (clayton_excel_clean (snd (clayton_excel_clean
     (snd (clayton_excel_parse sample_lib (Inr [clayton_row]) tabular_init)))))
     = Some (AttributeError ''object has no attribute data_frame'')"
proof -
  have p1: "civicsource_parse sample_lib (ExcelPath (Inr [civicsource_row])) civicsource_init
      = (fst (civicsource_parse sample_lib (ExcelPath (Inr [civicsource_row])) civicsource_init),
         civicsource_init\<lparr>data_frame := Attr (Some [civicsource_row])\<rparr>)"
    by (simp add: parse_defs civicsource_init_def civicsource_row_def split: sum.splits)
  have ok1: "\<not> isl (fst (civicsource_parse sample_lib (ExcelPath (Inr [civicsource_row]))
                civicsource_init))"
    by (simp add: parse_defs civicsource_init_def civicsource_row_def)
  have p2: "clayton_excel_parse sample_lib (Inr [clayton_row]) tabular_init
      = (fst (clayton_excel_parse sample_lib (Inr [clayton_row]) tabular_init),
         tabular_init\<lparr>data_frame := Attr (Some [clayton_row])\<rparr>)"
    by (simp add: parse_defs tabular_init_def clayton_row_def split: sum.splits)
  have ok2: "\<not> isl (fst (clayton_excel_parse sample_lib (Inr [clayton_row]) tabular_init))"
    by (simp add: parse_defs tabular_init_def clayton_row_def)
  have c1: "fst (civicsource_clean (civicsource_init\<lparr>data_frame := Attr (Some [civicsource_row])\<rparr>))
      = None \<and>
    fst (civicsource_clean (snd (civicsource_clean
      (civicsource_init\<lparr>data_frame := Attr (Some [civicsource_row])\<rparr>))))
      = Some (AttributeError ''object has no attribute data_frame'')"
    by (rule civicsource_clean_after_read) (simp_all add: civicsource_init_def)
  have c2: "fst (clayton_excel_clean (tabular_init\<lparr>data_frame := Attr (Some [clayton_row])\<rparr>))
      = None \<and>
    fst (clayton_excel_clean (snd (clayton_excel_clean
      (tabular_init\<lparr>data_frame := Attr (Some [clayton_row])\<rparr>))))
      = Some (AttributeError ''object has no attribute data_frame'')"
    by (rule clayton_excel_clean_after_read) (simp add: tabular_init_def)
  show ?thesis
    using ok1 ok2 c1 c2 by (subst (2 3) p1, subst (2 3) p2) simp
qed

section \<open>Parse, then validate\<close>

lemma dropWhile_hd: "xs \<noteq> [] \<Longrightarrow> \<not> P (hd xs) \<Longrightarrow> dropWhile P xs = xs"
  by (cases xs) simp_all

lemma strip_unpadded:
  assumes "s = [] \<or> (\<not> is_space (hd s) \<and> \<not> is_space (last s))"
  shows "strip s = s"
proof (cases "s = []")
  case True
  then show ?thesis by (simp add: strip_def)
next
  case False
  then have a: "dropWhile is_space s = s"
    using assms by (simp add: dropWhile_hd)
  have "dropWhile is_space (rev s) = rev s"
    using assms False by (simp add: dropWhile_hd hd_rev)
  then show ?thesis using a by (simp add: strip_def)
qed

lemma dropWhile_shorter: "xs \<noteq> [] \<Longrightarrow> P (hd xs) \<Longrightarrow> length (dropWhile P xs) < length xs"
  by (cases xs) (simp_all add: le_imp_less_Suc length_dropWhile_le)

lemma strip_padded:
  assumes "strip s = s" and "s \<noteq> []"
  shows "\<not> is_space (hd s) \<and> \<not> is_space (last s)"
proof -
  have len: "length (strip s) \<le> length (dropWhile is_space s)"
    using length_dropWhile_le[of is_space "rev (dropWhile is_space s)"]
    by (simp add: strip_def)
  have front: "\<not> is_space (hd s)"
  proof
    assume "is_space (hd s)"
    then have "length (dropWhile is_space s) < length s"
      using assms(2) by (simp add: dropWhile_shorter)
    then show False using len assms(1) by simp
  qed
  then have same: "dropWhile is_space s = s"
    using assms(2) by (simp add: dropWhile_hd)
  have rear: "\<not> is_space (last s)"
  proof
    assume "is_space (last s)"
    then have "length (dropWhile is_space (rev s)) < length (rev s)"
      using assms(2) by (intro dropWhile_shorter) (simp_all add: hd_rev)
    then have "length (strip s) < length s"
      by (simp add: strip_def same)
    then show False using assms(1) by simp
  qed
  show ?thesis using front rear by simp
qed

lemma strip_unchanged_iff:
  "strip s = s \<longleftrightarrow> (s = [] \<or> (\<not> is_space (hd s) \<and> \<not> is_space (last s)))"
  using strip_unpadded[of s] strip_padded[of s] by blast

lemma parse_then_validate_Inr:
  "parse_then_validate validate parsed = Inr d \<Longrightarrow> parsed = Inr d"
  by (auto simp add: parse_then_validate_def)

lemma clayton_parse_typed:
  assumes "r ''parcel_id'' = Some (PStr a)" and "r ''owner_name'' = Some (PStr b)"
    and "r ''property_address'' = Some (PStr c)" and "r ''market_value'' = Some (PFloat m)"
    and "r ''tax_year'' = Some (PInt y)"
  shows "fst (clayton_excel_parse L (Inr (r # rest)) p) =
     Inr (map_of
       [(''parcel_id'', PStr (strip a)),
        (''owner_name'', PStr (strip b)),
        (''property_address'', PStr (strip c)),
        (''market_value'', PFloat m),
        (''tax_year'', PInt y)])"
  using assms by (simp add: parse_defs)

lemma civicsource_parse_typed:
  assumes "r ''property_id'' = Some (PStr a)" and "r ''address'' = Some (PStr b)"
    and "r ''owner_name'' = Some (PStr c)" and "r ''assessed_value'' = Some (PFloat v)"
    and "r ''tax_status'' = Some (PStr t)" and "r ''latitude'' = Some (PFloat la)"
    and "r ''longitude'' = Some (PFloat lo)"
  shows "fst (civicsource_parse L (ExcelPath (Inr (r # rest))) p) =
     Inr (map_of
       [(''property_id'', PStr a),
        (''address'', PStr b),
        (''owner_name'', PStr c),
        (''assessed_value'', PFloat v),
        (''tax_status'', PStr t),
        (''coordinates'', PDict [(''lat'', PFloat la), (''lon'', PFloat lo)])])"
  using assms by (simp add: parse_defs)

text \<open>
  Claim C6, as stated, fails for the Clayton Excel parser. A row whose owner name is
  \<open>" Jane Smith"\<close>, with a leading blank, is parsed and validated with success, and
  the owner name of the resulting record is \<open>"Jane Smith"\<close>: not the value of the row.
\<close>

theorem clayton_padded_owner_name_changed:
  "clayton_row_padded ''owner_name'' = Some (PStr '' Jane Smith'') \<and>
   field_of (parse_then_validate (clayton_validate sample_lib)
              (fst (clayton_excel_parse sample_lib (Inr [clayton_row_padded]) tabular_init)))
      ''owner_name''
     = Inr (Some (PStr ''Jane Smith''))"
proof -
  have row: "clayton_row_padded ''parcel_id'' = Some (PStr ''12-345-678'') \<and>
             clayton_row_padded ''owner_name'' = Some (PStr '' Jane Smith'') \<and>
             clayton_row_padded ''property_address'' = Some (PStr ''456 Oak Avenue'') \<and>
             clayton_row_padded ''market_value'' = Some (PFloat 250000) \<and>
             clayton_row_padded ''tax_year'' = Some (PInt 2023)"
    by (simp add: clayton_row_padded_def clayton_row_def)
  have st: "strip ''12-345-678'' = ''12-345-678'' \<and> strip '' Jane Smith'' = ''Jane Smith'' \<and>
            strip ''456 Oak Avenue'' = ''456 Oak Avenue''"
    by (simp add: strip_def is_space_def)
  have parsed: "fst (clayton_excel_parse sample_lib (Inr [clayton_row_padded]) tabular_init)
      = Inr clayton_sample"
    using row clayton_parse_typed[of clayton_row_padded "''12-345-678''" "'' Jane Smith''"
            "''456 Oak Avenue''" 250000 2023 sample_lib "[]" tabular_init]
    by (simp add: st clayton_sample_def)
  have valid: "parse_then_validate (clayton_validate sample_lib) (Inr clayton_sample)
      = Inr clayton_sample"
    by (simp add: parse_then_validate_def clayton_sample_valid)
  have owner: "clayton_sample ''owner_name'' = Some (PStr ''Jane Smith'')"
    by (simp add: clayton_sample_def)
  show ?thesis
    using row by (simp add: parsed valid field_of_def owner)
qed

text \<open>
  Claim C6, amended. For a first row whose cells have the types of their columns
  (strings, a float value, an int year), parse followed by validate, when it yields a
  record, yields this one: in the Clayton Excel parser every string field is the value
  of the row with leading and trailing whitespace removed, so it equals the value of the
  row if and only if that value is empty or neither begins nor ends with a whitespace
  character, and the numbers are those of the row; in the Civicsource parser every
  string field and the assessed value equal the values of the row, and the coordinates
  hold its latitude and longitude.
\<close>

theorem parsed_record_equals_row_up_to_strip:
  "(r ''parcel_id'' = Some (PStr a) \<and> r ''owner_name'' = Some (PStr b) \<and>
    r ''property_address'' = Some (PStr c) \<and> r ''market_value'' = Some (PFloat m) \<and>
    r ''tax_year'' = Some (PInt y) \<and>
    parse_then_validate (clayton_validate L)
      (fst (clayton_excel_parse L (Inr (r # rest)) (p :: tabular_parser))) = Inr d \<longrightarrow>
      d ''parcel_id'' = Some (PStr (strip a)) \<and>
      d ''owner_name'' = Some (PStr (strip b)) \<and>
      d ''property_address'' = Some (PStr (strip c)) \<and>
      d ''market_value'' = Some (PFloat m) \<and>
      d ''tax_year'' = Some (PInt y)) \<and>
   (strip s = s \<longleftrightarrow> (s = [] \<or> (\<not> is_space (hd s) \<and> \<not> is_space (last s)))) \<and>
   (r' ''property_id'' = Some (PStr a') \<and> r' ''address'' = Some (PStr b') \<and>
    r' ''owner_name'' = Some (PStr c') \<and> r' ''assessed_value'' = Some (PFloat v) \<and>
    r' ''tax_status'' = Some (PStr t) \<and> r' ''latitude'' = Some (PFloat la) \<and>
    r' ''longitude'' = Some (PFloat lo) \<and>
    parse_then_validate (civicsource_validate L)
      (fst (civicsource_parse L (ExcelPath (Inr (r' # rest'))) (q :: civicsource_parser)))
      = Inr d' \<longrightarrow>
      d' ''property_id'' = Some (PStr a') \<and>
      d' ''address'' = Some (PStr b') \<and>
      d' ''owner_name'' = Some (PStr c') \<and>
      d' ''assessed_value'' = Some (PFloat v) \<and>
      d' ''tax_status'' = Some (PStr t) \<and>
      d' ''coordinates'' = Some (PDict [(''lat'', PFloat la), (''lon'', PFloat lo)]))"
proof -
  have A: "r ''parcel_id'' = Some (PStr a) \<and> r ''owner_name'' = Some (PStr b) \<and>
    r ''property_address'' = Some (PStr c) \<and> r ''market_value'' = Some (PFloat m) \<and>
    r ''tax_year'' = Some (PInt y) \<and>
    parse_then_validate (clayton_validate L)
      (fst (clayton_excel_parse L (Inr (r # rest)) p)) = Inr d \<longrightarrow>
      d ''parcel_id'' = Some (PStr (strip a)) \<and>
      d ''owner_name'' = Some (PStr (strip b)) \<and>
      d ''property_address'' = Some (PStr (strip c)) \<and>
      d ''market_value'' = Some (PFloat m) \<and>
      d ''tax_year'' = Some (PInt y)"
  proof
    assume h: "r ''parcel_id'' = Some (PStr a) \<and> r ''owner_name'' = Some (PStr b) \<and>
      r ''property_address'' = Some (PStr c) \<and> r ''market_value'' = Some (PFloat m) \<and>
      r ''tax_year'' = Some (PInt y) \<and>
      parse_then_validate (clayton_validate L)
        (fst (clayton_excel_parse L (Inr (r # rest)) p)) = Inr d"
    then have "fst (clayton_excel_parse L (Inr (r # rest)) p) = Inr d"
      using parse_then_validate_Inr by blast
    moreover have "fst (clayton_excel_parse L (Inr (r # rest)) p) =
       Inr (map_of
         [(''parcel_id'', PStr (strip a)),
          (''owner_name'', PStr (strip b)),
          (''property_address'', PStr (strip c)),
          (''market_value'', PFloat m),
          (''tax_year'', PInt y)])"
      using h clayton_parse_typed[of r a b c m y L rest p] by blast
    ultimately have "d = map_of
         [(''parcel_id'', PStr (strip a)),
          (''owner_name'', PStr (strip b)),
          (''property_address'', PStr (strip c)),
          (''market_value'', PFloat m),
          (''tax_year'', PInt y)]"
      by simp
    then show "d ''parcel_id'' = Some (PStr (strip a)) \<and>
      d ''owner_name'' = Some (PStr (strip b)) \<and>
      d ''property_address'' = Some (PStr (strip c)) \<and>
      d ''market_value'' = Some (PFloat m) \<and>
      d ''tax_year'' = Some (PInt y)"
      by simp
  qed
  have B: "strip s = s \<longleftrightarrow> (s = [] \<or> (\<not> is_space (hd s) \<and> \<not> is_space (last s)))"
    by (rule strip_unchanged_iff)
  have C: "r' ''property_id'' = Some (PStr a') \<and> r' ''address'' = Some (PStr b') \<and>
    r' ''owner_name'' = Some (PStr c') \<and> r' ''assessed_value'' = Some (PFloat v) \<and>
    r' ''tax_status'' = Some (PStr t) \<and> r' ''latitude'' = Some (PFloat la) \<and>
    r' ''longitude'' = Some (PFloat lo) \<and>
    parse_then_validate (civicsource_validate L)
      (fst (civicsource_parse L (ExcelPath (Inr (r' # rest'))) q)) = Inr d' \<longrightarrow>
      d' ''property_id'' = Some (PStr a') \<and>
      d' ''address'' = Some (PStr b') \<and>
      d' ''owner_name'' = Some (PStr c') \<and>
      d' ''assessed_value'' = Some (PFloat v) \<and>
      d' ''tax_status'' = Some (PStr t) \<and>
      d' ''coordinates'' = Some (PDict [(''lat'', PFloat la), (''lon'', PFloat lo)])"
  proof
    assume h: "r' ''property_id'' = Some (PStr a') \<and> r' ''address'' = Some (PStr b') \<and>
      r' ''owner_name'' = Some (PStr c') \<and> r' ''assessed_value'' = Some (PFloat v) \<and>
      r' ''tax_status'' = Some (PStr t) \<and> r' ''latitude'' = Some (PFloat la) \<and>
      r' ''longitude'' = Some (PFloat lo) \<and>
      parse_then_validate (civicsource_validate L)
        (fst (civicsource_parse L (ExcelPath (Inr (r' # rest'))) q)) = Inr d'"
    then have "fst (civicsource_parse L (ExcelPath (Inr (r' # rest'))) q) = Inr d'"
      using parse_then_validate_Inr by blast
    moreover have "fst (civicsource_parse L (ExcelPath (Inr (r' # rest'))) q) =
       Inr (map_of
         [(''property_id'', PStr a'),
          (''address'', PStr b'),
          (''owner_name'', PStr c'),
          (''assessed_value'', PFloat v),
          (''tax_status'', PStr t),
          (''coordinates'', PDict [(''lat'', PFloat la), (''lon'', PFloat lo)])])"
      using h civicsource_parse_typed[of r' a' b' c' v t la lo L rest' q] by blast
    ultimately have "d' = map_of
         [(''property_id'', PStr a'),
          (''address'', PStr b'),
          (''owner_name'', PStr c'),
          (''assessed_value'', PFloat v),
          (''tax_status'', PStr t),
          (''coordinates'', PDict [(''lat'', PFloat la), (''lon'', PFloat lo)])]"
      by simp
    then show "d' ''property_id'' = Some (PStr a') \<and>
      d' ''address'' = Some (PStr b') \<and>
      d' ''owner_name'' = Some (PStr c') \<and>
      d' ''assessed_value'' = Some (PFloat v) \<and>
      d' ''tax_status'' = Some (PStr t) \<and>
      d' ''coordinates'' = Some (PDict [(''lat'', PFloat la), (''lon'', PFloat lo)])"
      by simp
  qed
  show ?thesis by (intro conjI A B C)
qed

theorem parsed_record_equals_row_up_to_strip_witness:
  "clayton_row ''parcel_id'' = Some (PStr ''12-345-678'') \<and>
   clayton_row ''owner_name'' = Some (PStr ''Jane Smith'') \<and>
   clayton_row ''property_address'' = Some (PStr ''456 Oak Avenue'') \<and>
   clayton_row ''market_value'' = Some (PFloat 250000) \<and>
   clayton_row ''tax_year'' = Some (PInt 2023) \<and>
   parse_then_validate (clayton_validate sample_lib)
     (fst (clayton_excel_parse sample_lib (Inr [clayton_row]) tabular_init)) = Inr clayton_sample \<and>
   clayton_sample ''owner_name'' = Some (PStr (strip ''Jane Smith'')) \<and>
   \<not> is_space (hd ''Jane Smith'') \<and> \<not> is_space (last ''Jane Smith'') \<and>
   strip ''Jane Smith'' = ''Jane Smith'' \<and>
   strip (CHR 0xA0 # ''Jane Smith'') = ''Jane Smith'' \<and>
   civicsource_row ''property_id'' = Some (PStr ''ABC-12345'') \<and>
   parse_then_validate (civicsource_validate sample_lib)
     (fst (civicsource_parse sample_lib (ExcelPath (Inr [civicsource_row])) civicsource_init))
     = Inr civicsource_sample \<and>
   civicsource_sample ''property_id'' = Some (PStr ''ABC-12345'')"
proof -
  note T = parsed_record_equals_row_up_to_strip
    [of clayton_row "''12-345-678''" "''Jane Smith''" "''456 Oak Avenue''" 250000 2023
        sample_lib "[]" tabular_init clayton_sample "''Jane Smith''"
        civicsource_row "''ABC-12345''" "''123 Main St''" "''John Doe''" 150000 "''current''"
        "163 / 4" "- 74" "[]" civicsource_init civicsource_sample]
  have row: "clayton_row ''parcel_id'' = Some (PStr ''12-345-678'') \<and>
             clayton_row ''owner_name'' = Some (PStr ''Jane Smith'') \<and>
             clayton_row ''property_address'' = Some (PStr ''456 Oak Avenue'') \<and>
             clayton_row ''market_value'' = Some (PFloat 250000) \<and>
             clayton_row ''tax_year'' = Some (PInt 2023)"
    by (simp add: clayton_row_def)
  have sp: "\<not> is_space (hd ''Jane Smith'') \<and> \<not> is_space (last ''Jane Smith'')"
    by (simp add: is_space_def)
  have st: "strip ''12-345-678'' = ''12-345-678'' \<and> strip ''Jane Smith'' = ''Jane Smith'' \<and>
            strip ''456 Oak Avenue'' = ''456 Oak Avenue''"
    by (simp add: strip_def is_space_def)
  have parsed: "fst (clayton_excel_parse sample_lib (Inr [clayton_row]) tabular_init)
      = Inr clayton_sample"
    using row clayton_parse_typed[of clayton_row "''12-345-678''" "''Jane Smith''"
            "''456 Oak Avenue''" 250000 2023 sample_lib "[]" tabular_init]
    by (simp add: st clayton_sample_def)
  have pv: "parse_then_validate (clayton_validate sample_lib)
     (fst (clayton_excel_parse sample_lib (Inr [clayton_row]) tabular_init)) = Inr clayton_sample"
    by (simp add: parsed parse_then_validate_def clayton_sample_valid)
  have owner: "clayton_sample ''owner_name'' = Some (PStr (strip ''Jane Smith''))"
    using T[THEN conjunct1] row pv by blast
  have unpadded: "strip ''Jane Smith'' = ''Jane Smith''"
    using T[THEN conjunct2, THEN conjunct1] sp by blast
  have nbsp: "strip (CHR 0xA0 # ''Jane Smith'') = ''Jane Smith''"
    by (simp add: strip_def is_space_def)
  have row': "civicsource_row ''property_id'' = Some (PStr ''ABC-12345'') \<and>
              civicsource_row ''address'' = Some (PStr ''123 Main St'') \<and>
              civicsource_row ''owner_name'' = Some (PStr ''John Doe'') \<and>
              civicsource_row ''assessed_value'' = Some (PFloat 150000) \<and>
              civicsource_row ''tax_status'' = Some (PStr ''current'') \<and>
              civicsource_row ''latitude'' = Some (PFloat (163 / 4)) \<and>
              civicsource_row ''longitude'' = Some (PFloat (- 74))"
    by (simp add: civicsource_row_def)
  have parsed': "fst (civicsource_parse sample_lib (ExcelPath (Inr [civicsource_row]))
                   civicsource_init) = Inr civicsource_sample"
    using row' civicsource_parse_typed[of civicsource_row "''ABC-12345''" "''123 Main St''"
            "''John Doe''" 150000 "''current''" "163 / 4" "- 74"
            sample_lib "[]" civicsource_init]
    by (simp add: civicsource_sample_def)
  have pv': "parse_then_validate (civicsource_validate sample_lib)
     (fst (civicsource_parse sample_lib (ExcelPath (Inr [civicsource_row])) civicsource_init))
     = Inr civicsource_sample"
    by (simp add: parsed' parse_then_validate_def civicsource_sample_valid)
  have pid: "civicsource_sample ''property_id'' = Some (PStr ''ABC-12345'')"
    using T[THEN conjunct2, THEN conjunct2] row' pv' by blast
  show ?thesis using row pv owner sp unpadded nbsp row' pv' pid by blast
qed

end
